theory Spec2Isabelle
  imports Main "HOL-Library.Word"
begin

unbundle bit_operations_syntax

section \<open>Exceptions\<close>

text \<open>
  The Python exceptions that the modelled code can raise. \<open>MikroTikAPIError\<close> carries
  its message; \<open>IndexError\<close> is what \<^verbatim>\<open>self.socket.recv(1)[0]\<close> raises once the peer's
  data is exhausted (indexing the empty bytes object); \<open>ValueError\<close> is what
  \<^verbatim>\<open>bytes([x])\<close> raises for \<open>x\<close> outside \<open>0..255\<close>.
\<close>

datatype py_exception = MikroTikAPIError string | IndexError | ValueError

fun str_exception :: "py_exception \<Rightarrow> string" where
  "str_exception (MikroTikAPIError m) = m"
| "str_exception IndexError = ''index out of range''"
| "str_exception ValueError = ''bytes must be in range(0, 256)''"

section \<open>Wire codec: the variable-length prefix\<close>

text \<open>
  \<^verbatim>\<open>MikroTikAPI._send_length\<close> and \<^verbatim>\<open>MikroTikAPI._read_length\<close> of
  \<^verbatim>\<open>mikrotik_api.py\<close>. Python integers are unbounded, so lengths and bytes are
  \<open>int\<close>. \<open>send_length\<close> returns the bytes handed to the socket; \<open>read_length\<close>
  consumes bytes from the front of the incoming byte stream and returns the decoded value
  with the rest of the stream.
\<close>

definition bytes :: "int list \<Rightarrow> py_exception + int list" where
  "bytes xs = (if list_all (\<lambda>x. 0 \<le> x \<and> x < 256) xs then Inr xs else Inl ValueError)"

definition send_length :: "int \<Rightarrow> py_exception + int list" where
  "send_length len =
     (if len < 0x80 then bytes [len]
      else if len < 0x4000 then
        (let len = len OR 0x8000
         in bytes [drop_bit 8 len AND 0xFF, len AND 0xFF])
      else if len < 0x200000 then
        (let len = len OR 0xC00000
         in bytes [drop_bit 16 len AND 0xFF, drop_bit 8 len AND 0xFF, len AND 0xFF])
      else if len < 0x10000000 then
        (let len = len OR 0xE0000000
         in bytes [drop_bit 24 len AND 0xFF, drop_bit 16 len AND 0xFF,
                   drop_bit 8 len AND 0xFF, len AND 0xFF])
      else bytes [0xF0, drop_bit 24 len AND 0xFF, drop_bit 16 len AND 0xFF,
                  drop_bit 8 len AND 0xFF, len AND 0xFF])"

fun recv1 :: "int list \<Rightarrow> py_exception + (int \<times> int list)" where
  "recv1 [] = Inl IndexError"
| "recv1 (b # s) = Inr (b, s)"

definition read_length :: "int list \<Rightarrow> py_exception + (int \<times> int list)" where
  "read_length s =
     (case recv1 s of Inl e \<Rightarrow> Inl e | Inr (first_byte, s1) \<Rightarrow>
        (if first_byte < 0x80 then Inr (first_byte, s1)
         else if first_byte < 0xC0 then
           (case recv1 s1 of Inl e \<Rightarrow> Inl e | Inr (b1, s2) \<Rightarrow>
              Inr (push_bit 8 (first_byte AND 0x7F) + b1, s2))
         else if first_byte < 0xE0 then
           (case recv1 s1 of Inl e \<Rightarrow> Inl e | Inr (b1, s2) \<Rightarrow>
             (case recv1 s2 of Inl e \<Rightarrow> Inl e | Inr (b2, s3) \<Rightarrow>
                Inr (push_bit 16 (first_byte AND 0x1F) + push_bit 8 b1 + b2, s3)))
         else if first_byte < 0xF0 then
           (case recv1 s1 of Inl e \<Rightarrow> Inl e | Inr (b1, s2) \<Rightarrow>
             (case recv1 s2 of Inl e \<Rightarrow> Inl e | Inr (b2, s3) \<Rightarrow>
               (case recv1 s3 of Inl e \<Rightarrow> Inl e | Inr (b3, s4) \<Rightarrow>
                  Inr (push_bit 24 (first_byte AND 0x0F) + push_bit 16 b1 + push_bit 8 b2 + b3,
                       s4))))
         else
           (case recv1 s1 of Inl e \<Rightarrow> Inl e | Inr (b1, s2) \<Rightarrow>
             (case recv1 s2 of Inl e \<Rightarrow> Inl e | Inr (b2, s3) \<Rightarrow>
               (case recv1 s3 of Inl e \<Rightarrow> Inl e | Inr (b3, s4) \<Rightarrow>
                 (case recv1 s4 of Inl e \<Rightarrow> Inl e | Inr (b4, s5) \<Rightarrow>
                    Inr (push_bit 24 b1 + push_bit 16 b2 + push_bit 8 b3 + b4, s5)))))))"

section \<open>Strings\<close>

text \<open>
  \<^verbatim>\<open>str.startswith\<close>, \<^verbatim>\<open>str.partition("=")\<close> (key and value around the first
  \<open>=\<close>; the value is empty when there is none) and \<^verbatim>\<open>a in b\<close> on strings.
\<close>

fun startswith :: "string \<Rightarrow> string \<Rightarrow> bool" where
  "startswith s [] = True"
| "startswith [] (p # ps) = False"
| "startswith (c # cs) (p # ps) = (c = p \<and> startswith cs ps)"

definition partition_eq :: "string \<Rightarrow> string \<times> string" where
  "partition_eq s =
     (takeWhile (\<lambda>c. c \<noteq> CHR ''='') s, drop 1 (dropWhile (\<lambda>c. c \<noteq> CHR ''='') s))"

fun contains :: "string \<Rightarrow> string \<Rightarrow> bool" where
  "contains [] p = (p = [])"
| "contains (c # cs) p = (startswith (c # cs) p \<or> contains cs p)"

section \<open>Protocol session\<close>

text \<open>
  One \<^verbatim>\<open>MikroTikAPI\<close> object with its socket. The transport is modelled at the
  granularity of words: \<open>sent\<close> is the sequence of words written with
  \<^verbatim>\<open>_send_word\<close> so far, \<open>incoming\<close> the sequence of words the device delivers, in
  the order in which \<^verbatim>\<open>_read_word\<close> will return them. Writing to an open socket
  succeeds; reading past the end of \<open>incoming\<close> raises, as \<^verbatim>\<open>recv(1)[0]\<close> does on a
  closed connection.
\<close>

record session =
  connected :: bool
  sent :: "string list"
  incoming :: "string list"

type_synonym reply = "string \<rightharpoonup> string"

definition send_word :: "session \<Rightarrow> string \<Rightarrow> session" where
  "send_word s word = s\<lparr>sent := sent s @ [word]\<rparr>"

fun read_word :: "string list \<Rightarrow> py_exception + (string \<times> string list)" where
  "read_word [] = Inl IndexError"
| "read_word (w # ws) = Inr (w, ws)"

text \<open>
  The inner loop of \<^verbatim>\<open>_send_command\<close> for a \<^verbatim>\<open>!re\<close> sentence: it returns the
  accumulated record, the pushed-back control word (\<^verbatim>\<open>next_control\<close>) if the sentence
  was ended by one, and the rest of the stream.
\<close>

fun read_re :: "string list \<Rightarrow> reply \<Rightarrow> py_exception + (reply \<times> string option \<times> string list)" where
  "read_re [] data = Inl IndexError"
| "read_re (attr # ws) data =
     (if attr = [] then Inr (data, None, ws)
      else if startswith attr ''='' then
        (case partition_eq (drop 1 attr) of (key, val) \<Rightarrow> read_re ws (data(key \<mapsto> val)))
      else if startswith attr ''!'' then Inr (data, Some attr, ws)
      else read_re ws data)"

text \<open>
  The inner loop for a \<^verbatim>\<open>!trap\<close> or \<^verbatim>\<open>!fatal\<close> sentence. It always ends in an
  exception: the \<^verbatim>\<open>MikroTikAPIError\<close> built from \<^verbatim>\<open>error_msg\<close>, or the read error
  when the stream ends first. The rest of the stream is returned with it.
\<close>

fun read_trap :: "string list \<Rightarrow> string \<Rightarrow> py_exception \<times> string list" where
  "read_trap [] error_msg = (IndexError, [])"
| "read_trap (attr # ws) error_msg =
     (if attr = [] \<or> startswith attr ''!''
      then (MikroTikAPIError (''Command failed: '' @ error_msg), ws)
      else if startswith attr ''=message='' then read_trap ws (drop 9 attr)
      else read_trap ws error_msg)"

text \<open>
  The response loop of \<^verbatim>\<open>_send_command\<close>, with its one-slot buffer
  \<^verbatim>\<open>next_control\<close> and the list \<^verbatim>\<open>response\<close> built so far.
\<close>

function read_response ::
  "string option \<Rightarrow> reply list \<Rightarrow> string list \<Rightarrow> (py_exception + reply list) \<times> string list" where
  "read_response next_control response ws =
     (case (case next_control of Some w \<Rightarrow> Inr (w, ws) | None \<Rightarrow> read_word ws) of
        Inl e \<Rightarrow> (Inl e, ws)
      | Inr (word, ws1) \<Rightarrow>
          (if word = [] then (Inr response, ws1)
           else if word = ''!re'' \<or> startswith word ''!re'' then
             (case read_re ws1 Map.empty of
                Inl e \<Rightarrow> (Inl e, [])
              | Inr (data, nc, ws2) \<Rightarrow> read_response nc (response @ [data]) ws2)
           else if startswith word ''!done'' then (Inr response, ws1)
           else if startswith word ''!trap'' \<or> startswith word ''!fatal'' then
             (case read_trap ws1 ''Unknown error'' of (e, ws2) \<Rightarrow> (Inl e, ws2))
           else read_response None response ws1))"
  by pat_completeness auto
termination
proof -
  have shorter: "length ws' < length ws" if "read_re ws data = Inr (data', nc, ws')"
    for ws data data' nc ws'
    using that
    by (induction ws data rule: read_re.induct) (auto split: if_splits prod.splits)
  show ?thesis
  proof (relation "measure (\<lambda>(nc, response, ws). 2 * length ws + (if nc = None then 0 else 1))",
      goal_cases)
    case 1
    show ?case by simp
  next
    case (2 next_control response ws x word ws1 r data y nc ws2)
    then show ?case
      by (cases next_control; cases ws) (auto dest: shorter)
  next
    case (3 next_control response ws x word ws1)
    then show ?case
      by (cases next_control; cases ws) auto
  qed
qed

declare read_response.simps [simp del]

text \<open>\<^verbatim>\<open>MikroTikAPI._send_command\<close>. The arguments are the dictionary's items in order.\<close>

definition send_command ::
  "session \<Rightarrow> string \<Rightarrow> (string \<times> string) list \<Rightarrow> (py_exception + reply list) \<times> session" where
  "send_command s command arguments =
     (if \<not> connected s then (Inl (MikroTikAPIError ''Not connected to MikroTik device''), s)
      else
        let s1 = send_word s command;
            s2 = foldl (\<lambda>s (key, val). send_word s (''='' @ key @ ''='' @ val)) s1 arguments;
            s3 = send_word s2 ''''
        in (case read_response None [] (incoming s3) of
              (Inl e, ws) \<Rightarrow>
                (Inl (MikroTikAPIError (''Command execution failed: '' @ str_exception e)),
                 s3\<lparr>incoming := ws\<rparr>)
            | (Inr response, ws) \<Rightarrow> (Inr response, s3\<lparr>incoming := ws\<rparr>)))"

text \<open>
  \<^verbatim>\<open>MikroTikAPI._login\<close>, \<^verbatim>\<open>connect\<close> and \<^verbatim>\<open>disconnect\<close>. The argument \<open>net\<close> of
  \<open>connect\<close> is what the network offers the new socket: \<open>None\<close> when opening the
  connection raises, otherwise the words the device will deliver on it.
\<close>

fun skip_sentence :: "string list \<Rightarrow> string list" where
  "skip_sentence [] = []"
| "skip_sentence (w # ws) = (if w = [] then ws else skip_sentence ws)"

definition login :: "session \<Rightarrow> string \<Rightarrow> string \<Rightarrow> bool \<times> session" where
  "login s username password =
     (let s1 = send_word s ''/login'';
          s2 = send_word s1 (''=name='' @ username);
          s3 = send_word s2 (''=password='' @ password);
          s4 = send_word s3 ''''
      in (case read_word (incoming s4) of
            Inl e \<Rightarrow> (False, s4)
          | Inr (response, ws) \<Rightarrow>
              (if response = ''!done'' then (True, s4\<lparr>incoming := ws\<rparr>)
               else if response = ''!trap'' then (False, s4\<lparr>incoming := skip_sentence ws\<rparr>)
               else (False, s4\<lparr>incoming := ws\<rparr>))))"

definition disconnect :: "session \<Rightarrow> session" where
  "disconnect s = s\<lparr>connected := False\<rparr>"

definition connect :: "string list option \<Rightarrow> string \<Rightarrow> string \<Rightarrow> bool \<times> session" where
  "connect net username password =
     (case net of
        None \<Rightarrow> (False, \<lparr>connected = False, sent = [], incoming = []\<rparr>)
      | Some ws \<Rightarrow>
          (case login \<lparr>connected = False, sent = [], incoming = ws\<rparr> username password of
             (True, s) \<Rightarrow> (True, s\<lparr>connected := True\<rparr>)
           | (False, s) \<Rightarrow> (False, disconnect s)))"

section \<open>Formatting\<close>

text \<open>
  \<^verbatim>\<open>str(n)\<close> for an integer and the format specification \<^verbatim>\<open>{n:02d}\<close>: decimal
  digits, zero-padded on the left to a width of two, the sign counting towards the width.
\<close>

definition digit_char :: "nat \<Rightarrow> char" where
  "digit_char d = ''0123456789'' ! d"

fun str_nat :: "nat \<Rightarrow> string" where
  "str_nat n = (if n < 10 then [digit_char n] else str_nat (n div 10) @ [digit_char (n mod 10)])"

declare str_nat.simps [simp del]

definition str_int :: "int \<Rightarrow> string" where
  "str_int i = (if i < 0 then ''-'' @ str_nat (nat (- i)) else str_nat (nat i))"

definition zfill :: "nat \<Rightarrow> string \<Rightarrow> string" where
  "zfill width s = replicate (width - length s) (CHR ''0'') @ s"

definition format_02d :: "int \<Rightarrow> string" where
  "format_02d i =
     (if i < 0 then ''-'' @ zfill 1 (str_nat (nat (- i))) else zfill 2 (str_nat (nat i)))"

section \<open>Credential generation\<close>

text \<open>
  \<^verbatim>\<open>MikroTikManager.generate_temp_credentials\<close> and the module-level
  \<^verbatim>\<open>generate_temp_credentials\<close> of \<^verbatim>\<open>mikrotik_api.py\<close>. The clock reading
  (\<^verbatim>\<open>int(datetime.now().timestamp())\<close>, \<^verbatim>\<open>int(time.time())\<close>) is the input \<open>now\<close>.
  The random source is the input \<open>rnd\<close>: \<open>rnd i\<close> is the raw value behind the \<open>i\<close>-th
  call of \<^verbatim>\<open>secrets.choice\<close>, which picks the sequence element at that value reduced
  below the sequence's length.
\<close>

definition ascii_lowercase :: string where
  "ascii_lowercase = ''abcdefghijklmnopqrstuvwxyz''"

definition ascii_uppercase :: string where
  "ascii_uppercase = ''ABCDEFGHIJKLMNOPQRSTUVWXYZ''"

definition ascii_letters :: string where
  "ascii_letters = ascii_lowercase @ ascii_uppercase"

definition digits :: string where
  "digits = ''0123456789''"

definition choice :: "string \<Rightarrow> nat \<Rightarrow> char" where
  "choice seq r = seq ! (r mod length seq)"

definition generate_temp_credentials :: "int \<Rightarrow> (nat \<Rightarrow> nat) \<Rightarrow> string \<Rightarrow> string \<times> string" where
  "generate_temp_credentials now rnd prefix =
     (let timestamp = str_int now;
          rand_suffix = map (\<lambda>i. choice (ascii_lowercase @ digits) (rnd i)) [0..<4];
          username = prefix @ timestamp @ ''-'' @ rand_suffix;
          alphabet = ascii_letters @ digits @ ''!@#$%^&*'';
          password = map (\<lambda>i. choice alphabet (rnd (4 + i))) [0..<12]
      in (username, password))"

definition api_generate_temp_credentials :: "int \<Rightarrow> (nat \<Rightarrow> nat) \<Rightarrow> string \<Rightarrow> string \<times> string" where
  "api_generate_temp_credentials now rnd prefix =
     (let s = str_int now;
          timestamp = drop (length s - 6) s;
          username = prefix @ timestamp;
          alphabet = ascii_letters @ digits;
          password = map (\<lambda>i. choice alphabet (rnd i)) [0..<12]
      in (username, password))"

section \<open>Lifecycle manager\<close>

text \<open>
  \<^verbatim>\<open>MikroTikManager\<close> of \<^verbatim>\<open>mikrotik_manager.py\<close>. Values read from a reply with
  \<^verbatim>\<open>.get\<close> are \<open>string option\<close> (\<open>None\<close> for a missing key); \<open>py_truthy\<close> is
  Python's truth value of such a value and \<open>py_or\<close> its \<^verbatim>\<open>or\<close>.
\<close>

record mikrotik_manager =
  service_user :: string
  service_pass :: string
  api_port :: int

definition py_truthy :: "string option \<Rightarrow> bool" where
  "py_truthy x = (case x of None \<Rightarrow> False | Some v \<Rightarrow> v \<noteq> [])"

definition py_or :: "string option \<Rightarrow> string option \<Rightarrow> string option" where
  "py_or a b = (if py_truthy a then a else b)"

definition name_or_identity :: "reply \<Rightarrow> string option" where
  "name_or_identity r = py_or (r ''name'') (r ''identity'')"

text \<open>
  The identity query, written out in the source at each place that needs the identity
  (\<^verbatim>\<open>test_connection\<close>, \<^verbatim>\<open>get_device_info\<close>, \<^verbatim>\<open>create_temporary_user\<close>): the
  restricted \<^verbatim>\<open>/system/identity/print\<close>, the unrestricted one if the first gave
  nothing usable, then the first record's \<^verbatim>\<open>name\<close> or \<^verbatim>\<open>identity\<close>. An exception of
  \<^verbatim>\<open>_send_command\<close> leaves the block.
\<close>

definition identity_print :: "session \<Rightarrow> (py_exception + string option) \<times> session" where
  "identity_print api =
     (case send_command api ''/system/identity/print'' [(''.proplist'', ''name'')] of
        (Inl e, api1) \<Rightarrow> (Inl e, api1)
      | (Inr ident_resp, api1) \<Rightarrow>
          (case (if \<not> (ident_resp \<noteq> [] \<and> py_truthy (name_or_identity (hd ident_resp)))
                 then send_command api1 ''/system/identity/print'' []
                 else (Inr ident_resp, api1)) of
             (Inl e, api2) \<Rightarrow> (Inl e, api2)
           | (Inr ident_resp, api2) \<Rightarrow>
               (if ident_resp \<noteq> [] then (Inr (name_or_identity (hd ident_resp)), api2)
                else (Inr None, api2))))"

datatype test_result =
  Test_Failure string
  | Test_Success "string option" string

text \<open>
  \<^verbatim>\<open>MikroTikManager.test_connection\<close>. \<open>reachable\<close> is the outcome of the TCP probe
  of \<^verbatim>\<open>connect_to_device\<close>, \<open>net\<close> what the network offers the API connection.
  \<open>Test_Success identity message\<close> stands for the success dictionary.
\<close>

definition test_connection :: "mikrotik_manager \<Rightarrow> bool \<Rightarrow> string list option \<Rightarrow> test_result" where
  "test_connection self reachable net =
     (if \<not> reachable then Test_Failure (''Cannot reach port '' @ str_int (api_port self))
      else
        let identity =
          (case connect net (service_user self) (service_pass self) of
             (True, api) \<Rightarrow>
               (case identity_print api of
                  (Inl e, api1) \<Rightarrow> None
                | (Inr identity, api1) \<Rightarrow> identity)
           | (False, api) \<Rightarrow> None)
        in if \<not> py_truthy identity then Test_Success None ''Connected, identity not readable''
           else Test_Success identity ''Connection successful'')"

definition dquote :: string where
  "dquote = [CHR 0x22]"

datatype create_result =
  Create_Failure string
  | Create_Success string string int string "string option"

text \<open>
  \<^verbatim>\<open>MikroTikManager.create_temporary_user\<close>. \<open>net_test\<close>, \<open>net_api\<close> and \<open>net_temp\<close>
  are what the network offers the three connections the function may open, in order: the
  one inside \<^verbatim>\<open>test_connection\<close>, the service session \<^verbatim>\<open>api\<close>, and
  \<^verbatim>\<open>api_temp\<close>. The result comes with the final state of \<^verbatim>\<open>api\<close>, if it was
  opened. \<open>Create_Success username password duration_minutes message device_identity\<close>
  stands for the success dictionary. The argument dictionaries of the two add commands,
  the interval string and the cleanup script are defined on their own.
\<close>

definition user_add_arguments :: "string \<Rightarrow> string \<Rightarrow> string \<Rightarrow> int \<Rightarrow> (string \<times> string) list" where
  "user_add_arguments temp_username temp_password group_name duration_minutes =
     [(''name'', temp_username),
      (''password'', temp_password),
      (''group'', group_name),
      (''comment'', ''Temporary user - expires in '' @ str_int duration_minutes @ '' minutes'')]"

definition interval_str :: "int \<Rightarrow> string" where
  "interval_str duration_minutes =
     (let hh = duration_minutes div 60;
          mm = duration_minutes mod 60
      in format_02d hh @ '':'' @ format_02d mm @ '':00'')"

definition cleanup_script :: "string \<Rightarrow> string \<Rightarrow> string" where
  "cleanup_script temp_username scheduler_name =
     '':log info '' @ dquote @ ''Cleaning up temporary user: '' @ temp_username @ dquote @ ''; ''
     @ ''/user remove [find name='' @ dquote @ temp_username @ dquote @ '']; ''
     @ '':log info '' @ dquote @ ''Temporary user '' @ temp_username @ '' removed'' @ dquote
     @ ''; ''
     @ ''/system scheduler remove [find name='' @ dquote @ scheduler_name @ dquote @ '']; ''
     @ '':log info '' @ dquote @ ''Cleanup scheduler '' @ scheduler_name @ '' removed'' @ dquote"

definition scheduler_add_arguments :: "string \<Rightarrow> int \<Rightarrow> (string \<times> string) list" where
  "scheduler_add_arguments temp_username duration_minutes =
     (let scheduler_name = ''cleanup-'' @ temp_username
      in [(''name'', scheduler_name),
          (''interval'', interval_str duration_minutes),
          (''on-event'', cleanup_script temp_username scheduler_name),
          (''comment'', ''Auto cleanup for '' @ temp_username)])"

definition create_temporary_user ::
  "mikrotik_manager \<Rightarrow> bool \<Rightarrow> string list option \<Rightarrow> int \<Rightarrow> (nat \<Rightarrow> nat) \<Rightarrow>
   string list option \<Rightarrow> string list option \<Rightarrow> int \<Rightarrow> string \<Rightarrow> string option \<Rightarrow>
   create_result \<times> session option" where
  "create_temporary_user self reachable net_test now rnd net_api net_temp
       duration_minutes username_prefix group_arg =
     (case test_connection self reachable net_test of
        Test_Failure err \<Rightarrow> (Create_Failure (''Cannot connect to device: '' @ err), None)
      | Test_Success test_identity msg \<Rightarrow>
          (case generate_temp_credentials now rnd username_prefix of
             (temp_username, temp_password) \<Rightarrow>
          let group_name =
            (case group_arg of None \<Rightarrow> ''read'' | Some g \<Rightarrow> if g = [] then ''read'' else g)
          in
          (case connect net_api (service_user self) (service_pass self) of
             (False, api) \<Rightarrow> (Create_Failure ''API login failed'', Some api)
           | (True, api) \<Rightarrow>
               (case send_command api ''/user/add''
                       (user_add_arguments temp_username temp_password group_name
                          duration_minutes) of
                  (Inl e, api1) \<Rightarrow>
                    (Create_Failure (''Failed to create user: '' @ str_exception e),
                     Some (disconnect api1))
                | (Inr added, api1) \<Rightarrow>
                    (case send_command api1 ''/system/scheduler/add''
                            (scheduler_add_arguments temp_username duration_minutes) of
                       (Inl e, api2) \<Rightarrow>
                         (case send_command api2 ''/user/remove'' [(''numbers'', temp_username)] of
                            (rollback, api3) \<Rightarrow>
                              (Create_Failure
                                 (''Failed to create cleanup scheduler: '' @ str_exception e),
                               Some (disconnect api3)))
                     | (Inr scheduled, api2) \<Rightarrow>
                         let device_identity =
                           (if \<not> py_truthy test_identity then
                              (case connect net_temp temp_username temp_password of
                                 (True, api_temp) \<Rightarrow>
                                   (case identity_print api_temp of
                                      (Inl e, api_temp1) \<Rightarrow> None
                                    | (Inr identity, api_temp1) \<Rightarrow> identity)
                               | (False, api_temp) \<Rightarrow> None)
                            else test_identity)
                         in (Create_Success temp_username temp_password duration_minutes
                               ''Temporary user created successfully'' device_identity,
                             Some (disconnect api2)))))))"

datatype api_create_result =
  Api_Create_Failure string
  | Api_Create_Success string string int string

text \<open>
  \<^verbatim>\<open>MikroTikAPI.create_temporary_user\<close> of \<^verbatim>\<open>mikrotik_api.py\<close>, the create
  operation of the protocol client itself. \<open>service_username\<close> and \<open>service_password\<close>
  are the object's login; \<open>Api_Create_Success username password duration_minutes
  scheduler_name\<close> stands for the success dictionary.
\<close>

definition user_args :: "string \<Rightarrow> string \<Rightarrow> int \<Rightarrow> (string \<times> string) list" where
  "user_args username password duration_minutes =
     [(''name'', username),
      (''password'', password),
      (''group'', ''read''),
      (''comment'', ''Temporary user - expires in '' @ str_int duration_minutes @ '' minutes'')]"

definition cleanup_time :: "int \<Rightarrow> string" where
  "cleanup_time duration_minutes = ''00:00:'' @ format_02d duration_minutes"

definition scheduler_args :: "string \<Rightarrow> int \<Rightarrow> (string \<times> string) list" where
  "scheduler_args username duration_minutes =
     (let scheduler_name = ''cleanup_'' @ username
      in [(''name'', scheduler_name),
          (''start-time'', ''startup''),
          (''interval'', cleanup_time duration_minutes),
          (''on-event'',
             ''/user/remove [find name='' @ dquote @ username @ dquote
             @ ''] ; /system/scheduler/remove [find name='' @ dquote @ scheduler_name
             @ dquote @ '']''),
          (''comment'', ''Auto-cleanup for temporary user '' @ username)])"

definition MikroTikAPI_create_temporary_user ::
  "string list option \<Rightarrow> string \<Rightarrow> string \<Rightarrow> string \<Rightarrow> string \<Rightarrow> int \<Rightarrow>
   api_create_result \<times> session" where
  "MikroTikAPI_create_temporary_user net service_username service_password
       username password duration_minutes =
     (case connect net service_username service_password of
        (False, api) \<Rightarrow> (Api_Create_Failure ''Connection failed'', api)
      | (True, api) \<Rightarrow>
          (case send_command api ''/user/add'' (user_args username password duration_minutes) of
             (Inl e, api1) \<Rightarrow>
               (Api_Create_Failure (''Failed to create user: '' @ str_exception e),
                disconnect api1)
           | (Inr added, api1) \<Rightarrow>
               (case send_command api1 ''/system/scheduler/add''
                       (scheduler_args username duration_minutes) of
                  (Inl e, api2) \<Rightarrow>
                    (case send_command api2 ''/user/remove'' [(''numbers'', username)] of
                       (rollback, api3) \<Rightarrow>
                         (Api_Create_Failure
                            (''Failed to create cleanup scheduler: '' @ str_exception e),
                          disconnect api3))
                | (Inr scheduled, api2) \<Rightarrow>
                    (Api_Create_Success username password duration_minutes
                       (''cleanup_'' @ username),
                     disconnect api2))))"

datatype revoke_result =
  Revoke_Failure string
  | Revoke_Success string

text \<open>\<^verbatim>\<open>MikroTikManager.revoke_temporary_user\<close>.\<close>

definition revoke_temporary_user ::
  "mikrotik_manager \<Rightarrow> bool \<Rightarrow> string list option \<Rightarrow> string list option \<Rightarrow> string \<Rightarrow>
   revoke_result \<times> session option" where
  "revoke_temporary_user self reachable net_test net_api username =
     (case test_connection self reachable net_test of
        Test_Failure err \<Rightarrow> (Revoke_Failure (''Cannot connect to device: '' @ err), None)
      | Test_Success test_identity msg \<Rightarrow>
          (case connect net_api (service_user self) (service_pass self) of
             (False, api) \<Rightarrow> (Revoke_Failure ''API login failed'', Some api)
           | (True, api) \<Rightarrow>
               (case send_command api ''/user/remove'' [(''numbers'', username)] of
                  (removed, api1) \<Rightarrow>
                    let scheduler_name = ''cleanup-'' @ username
                    in (case send_command api1 ''/system/scheduler/remove''
                               [(''numbers'', scheduler_name)] of
                          (unscheduled, api2) \<Rightarrow>
                            (Revoke_Success (''User '' @ username @ '' revoked successfully''),
                             Some (disconnect api2))))))"

datatype info_result =
  Info_Failure string
  | Info_Success "string option" int int

text \<open>
  \<^verbatim>\<open>MikroTikManager.get_device_info\<close>. \<open>str_lower\<close> is Python's \<^verbatim>\<open>str.lower\<close>,
  which the interpreter's Unicode tables define, not this repository: it is a parameter.
  \<open>temp_marker\<close> is the value of \<^verbatim>\<open>TEMP_USER_COMMENT_MARKER\<close>. \<open>db\<close> is the outcome
  of the database block when it runs: \<open>None\<close> when it raises, otherwise the value of
  \<^verbatim>\<open>db_count\<close>. \<open>Info_Success device_name total_users temporary_users\<close> stands for
  the success dictionary. The two blocks that adjust the counts after the session is closed
  are \<open>db_fallback\<close>, which gives the new \<^verbatim>\<open>temp_users\<close>, and \<open>final_sanity\<close>,
  which gives the new \<^verbatim>\<open>total_users\<close>.
\<close>

definition db_fallback :: "int \<Rightarrow> int \<Rightarrow> int option \<Rightarrow> int" where
  "db_fallback total_users temp_users db =
     (if total_users \<le> 1 \<or> temp_users = 0 then
        (case db of
           None \<Rightarrow> temp_users
         | Some db_count \<Rightarrow>
             if temp_users = 0 \<and> db_count \<noteq> 0 then db_count else temp_users)
      else temp_users)"

definition final_sanity :: "int \<Rightarrow> int \<Rightarrow> int" where
  "final_sanity total_users temp_users =
     (if total_users = 0 \<and> temp_users > 0 then temp_users + 1
      else if total_users < temp_users then temp_users + 1
      else total_users)"

definition get_device_info ::
  "mikrotik_manager \<Rightarrow> bool \<Rightarrow> string list option \<Rightarrow> string list option \<Rightarrow>
   (string \<Rightarrow> string) \<Rightarrow> string \<Rightarrow> int option \<Rightarrow> info_result" where
  "get_device_info self reachable net_test net_api str_lower temp_marker db =
     (case test_connection self reachable net_test of
        Test_Failure err \<Rightarrow> Info_Failure err
      | Test_Success test_identity msg \<Rightarrow>
          (case connect net_api (service_user self) (service_pass self) of
             (False, api) \<Rightarrow> Info_Failure ''API login failed''
           | (True, api) \<Rightarrow>
               (case (case identity_print api of
                        (Inl e, api1) \<Rightarrow> (None, api1)
                      | (Inr name, api1) \<Rightarrow> (if py_truthy name then name else None, api1)) of
                  (device_name, api1) \<Rightarrow>
               (case send_command api1 ''/user/print'' [] of
                  (Inl e, api2) \<Rightarrow> Info_Failure (str_exception e)
                | (Inr users, api2) \<Rightarrow>
                    let total_users =
                          int (length (filter (\<lambda>u. \<not> (u ''disabled'' = Some ''true''
                                                        \<or> u ''disabled'' = Some ''yes'')) users));
                        temp_users =
                          int (length (filter
                                 (\<lambda>u. contains
                                        (str_lower
                                           (case u ''comment'' of None \<Rightarrow> [] | Some c \<Rightarrow> c))
                                        (str_lower temp_marker)) users));
                        temp_users = db_fallback total_users temp_users db;
                        total_users = final_sanity total_users temp_users
                    in Info_Success device_name total_users temp_users))))"

section \<open>Notions used to state the properties\<close>

text \<open>
  The words a command puts on the wire: the command word, one \<open>=key=value\<close> word per
  argument, and the empty word.
\<close>

definition command_words :: "string \<Rightarrow> (string \<times> string) list \<Rightarrow> string list" where
  "command_words command arguments =
     command # map (\<lambda>(key, val). ''='' @ key @ ''='' @ val) arguments @ ['''']"

text \<open>
  An attribute word is a word that neither ends a sentence nor is a control word.
\<close>

definition attribute_word :: "string \<Rightarrow> bool" where
  "attribute_word w = (w \<noteq> [] \<and> \<not> startswith w ''!'')"


text \<open>
  The message of an error sentence as the code takes it: the value of the last
  \<open>=message=\<close> word among the attribute words, and the default when there is none.
  \<open>first_message\<close> is the reading "the first one seen".
\<close>

definition last_message :: "string list \<Rightarrow> string" where
  "last_message attrs =
     (case filter (\<lambda>a. startswith a ''=message='') attrs of
        [] \<Rightarrow> ''Unknown error''
      | m # ms \<Rightarrow> drop 9 (last (m # ms)))"

definition first_message :: "string list \<Rightarrow> string" where
  "first_message attrs =
     (case filter (\<lambda>a. startswith a ''=message='') attrs of
        [] \<Rightarrow> ''Unknown error''
      | m # ms \<Rightarrow> drop 9 m)"

text \<open>
  The shape \<open><prefix><10 digits>-<4 lowercase letters or digits>\<close> of a user name,
  and the password alphabet.
\<close>

definition is_digit :: "char \<Rightarrow> bool" where
  "is_digit c = (c \<in> set ''0123456789'')"

definition is_lower_alnum :: "char \<Rightarrow> bool" where
  "is_lower_alnum c = (c \<in> set ''abcdefghijklmnopqrstuvwxyz0123456789'')"

definition temp_username_form :: "string \<Rightarrow> string \<Rightarrow> bool" where
  "temp_username_form prefix username =
     (startswith username prefix \<and>
      (let r = drop (length prefix) username
       in length r = 15 \<and> list_all is_digit (take 10 r) \<and> r ! 10 = CHR ''-''
          \<and> list_all is_lower_alnum (drop 11 r)))"

definition password_alphabet :: string where
  "password_alphabet =
     ''abcdefghijklmnopqrstuvwxyzABCDEFGHIJKLMNOPQRSTUVWXYZ0123456789!@#$%^&*''"

text \<open>
  On text made of ASCII characters \<^verbatim>\<open>str.lower\<close> maps the letters \<open>A\<close> to \<open>Z\<close>
  to \<open>a\<close> to \<open>z\<close> and leaves the rest; \<open>ascii_lower\<close> is that function, for
  runs on such text.
\<close>

definition ascii_lower :: "string \<Rightarrow> string" where
  "ascii_lower s =
     map (\<lambda>c. case map_of (zip ascii_uppercase ascii_lowercase) c of None \<Rightarrow> c | Some l \<Rightarrow> l) s"

text \<open>
  Identity resolution. A record has a usable field when its \<open>name\<close> or its
  \<open>identity\<close> value is a non-empty string; the fallback query is needed when the
  restricted query returned no record or a first record without a usable field; the
  identity a result yields is its first record's non-empty \<open>name\<close>, otherwise that
  record's \<open>identity\<close> value, and none when there is no record.
\<close>

definition usable_field :: "reply \<Rightarrow> bool" where
  "usable_field r =
     ((case r ''name'' of None \<Rightarrow> False | Some v \<Rightarrow> v \<noteq> [])
      \<or> (case r ''identity'' of None \<Rightarrow> False | Some v \<Rightarrow> v \<noteq> []))"

definition fallback_needed :: "py_exception + reply list \<Rightarrow> bool" where
  "fallback_needed r1 =
     (case r1 of Inl e \<Rightarrow> False | Inr resp \<Rightarrow> resp = [] \<or> \<not> usable_field (hd resp))"

definition first_identity :: "reply list \<Rightarrow> string option" where
  "first_identity resp =
     (case resp of
        [] \<Rightarrow> None
      | r # rs \<Rightarrow>
          (case r ''name'' of
             Some v \<Rightarrow> if v \<noteq> [] then Some v else r ''identity''
           | None \<Rightarrow> r ''identity''))"

section \<open>The length prefix round trip\<close>

lemma and_255: "(k::int) AND 255 = k mod 256"
  using take_bit_eq_mask[of 8 k] by (simp add: take_bit_eq_mod mask_eq_exp_minus_1)

lemma and_127: "(k::int) AND 127 = k mod 128"
  using take_bit_eq_mask[of 7 k] by (simp add: take_bit_eq_mod mask_eq_exp_minus_1)

lemma and_31: "(k::int) AND 31 = k mod 32"
  using take_bit_eq_mask[of 5 k] by (simp add: take_bit_eq_mod mask_eq_exp_minus_1)

lemma and_15: "(k::int) AND 15 = k mod 16"
  using take_bit_eq_mask[of 4 k] by (simp add: take_bit_eq_mod mask_eq_exp_minus_1)

lemma or_high: "0 \<le> k \<Longrightarrow> k < 2 ^ n \<Longrightarrow> k OR (m * 2 ^ n) = k + m * 2 ^ n" for k m :: int
proof -
  assume a: "0 \<le> k" "k < 2 ^ n"
  have k: "take_bit n k = k" using a by (rule take_bit_int_eq_self)
  have "take_bit n k AND push_bit n m = 0"
    by (simp add: bit_eq_iff bit_simps)
  then have "take_bit n k + push_bit n m = take_bit n k OR push_bit n m"
    by (rule disjunctive_add_eq_or)
  then show ?thesis by (simp add: k push_bit_eq_mult)
qed

lemma or_8000: "0 \<le> k \<Longrightarrow> k < 0x4000 \<Longrightarrow> k OR 0x8000 = k + (0x8000::int)"
  using or_high[of k 15 1] by simp

lemma or_C00000: "0 \<le> k \<Longrightarrow> k < 0x200000 \<Longrightarrow> k OR 0xC00000 = k + (0xC00000::int)"
  using or_high[of k 22 3] by simp

lemma or_E0000000: "0 \<le> k \<Longrightarrow> k < 0x10000000 \<Longrightarrow> k OR 0xE0000000 = k + (0xE0000000::int)"
  using or_high[of k 29 7] by simp

lemma drop_bit_8: "drop_bit 8 (k::int) = k div 256"
  by (simp add: drop_bit_eq_div)

lemma drop_bit_16: "drop_bit 16 (k::int) = k div 256 div 256"
  by (simp add: drop_bit_eq_div zdiv_zmult2_eq[symmetric])

lemma drop_bit_24: "drop_bit 24 (k::int) = k div 256 div 256 div 256"
  by (simp add: drop_bit_eq_div zdiv_zmult2_eq[symmetric])

lemma quot_bounds:
  fixes L q r lo hi :: int
  assumes "L = 256 * q + r" "0 \<le> r" "r < 256" "lo * 256 \<le> L" "L < hi * 256"
  shows "lo \<le> q \<and> q < hi"
  using assms by linarith

lemma div256_bounds:
  fixes L :: int
  assumes "lo * 256 \<le> L" "L < hi * 256"
  shows "lo \<le> L div 256" "L div 256 < hi"
proof -
  have d: "L = 256 * (L div 256) + L mod 256" by simp
  have r: "0 \<le> L mod 256" "L mod 256 < 256" by simp_all
  show "lo \<le> L div 256" using quot_bounds[OF d r assms] by simp
  show "L div 256 < hi" using quot_bounds[OF d r assms] by simp
qed

lemma add_high_div: "(L + k * 256) div 256 = L div 256 + k" for L :: int
  by simp

lemma add_high_mod: "(L + k * 256) mod 256 = L mod 256" for L :: int
  by simp

lemma small_mod: "0 \<le> x \<Longrightarrow> x < m \<Longrightarrow> (x + k * m) mod m = x" for x :: int
  by simp

lemma send_length_1: "0 \<le> L \<Longrightarrow> L < 0x80 \<Longrightarrow> send_length L = Inr [L]"
  by (simp add: send_length_def bytes_def)

lemma read_length_1: "0 \<le> L \<Longrightarrow> L < 0x80 \<Longrightarrow> read_length ([L] @ rest) = Inr (L, rest)"
  by (simp add: read_length_def)

lemma send_length_2:
  assumes "0x80 \<le> L" "L < 0x4000"
  shows "send_length L = Inr [L div 256 + 128, L mod 256]"
proof -
  have o: "L OR 0x8000 = L + 0x8000" using assms by (intro or_8000) auto
  have a1: "(L + 0x8000) div 256 = L div 256 + 0x80"
    using add_high_div[of L "0x80"] by simp
  have a2: "(L + 0x8000) mod 256 = L mod 256"
    using add_high_mod[of L "0x80"] by simp
  have ra: "0 \<le> L div 256" "L div 256 < 0x40"
    using div256_bounds[of 0 L "0x40"] assms by simp_all
  have c: "(L div 256 + 128) mod 256 = L div 256 + 128" using ra by simp
  show ?thesis using assms ra
    by (simp add: send_length_def bytes_def o and_255 drop_bit_8 a1 a2 c Let_def)
qed

lemma read_length_2:
  assumes "0x80 \<le> L" "L < 0x4000"
  shows "read_length ([L div 256 + 128, L mod 256] @ rest) = Inr (L, rest)"
proof -
  have ra: "0 \<le> L div 256" "L div 256 < 0x40"
    using div256_bounds[of 0 L "0x40"] assms by simp_all
  have e: "(L div 256 + 128) mod 128 = L div 256"
    using small_mod[of "L div 256" 128 1] ra by simp
  show ?thesis using ra
    by (simp add: read_length_def and_127 push_bit_eq_mult e)
qed

lemma send_length_3:
  assumes "0x4000 \<le> L" "L < 0x200000"
  shows "send_length L = Inr [L div 256 div 256 + 192, L div 256 mod 256, L mod 256]"
proof -
  define a where "a = L div 256"
  have o: "L OR 0xC00000 = L + 0xC00000" using assms by (intro or_C00000) auto
  have a1: "(L + 0xC00000) div 256 = a + 0xC000"
    using add_high_div[of L "0xC000"] by (simp add: a_def)
  have a2: "(L + 0xC00000) mod 256 = L mod 256"
    using add_high_mod[of L "0xC000"] by simp
  have b1: "(a + 0xC000) div 256 = a div 256 + 0xC0"
    using add_high_div[of a "0xC0"] by simp
  have b2: "(a + 0xC000) mod 256 = a mod 256"
    using add_high_mod[of a "0xC0"] by simp
  have ra: "0 \<le> a" "a < 0x2000"
    using div256_bounds[of 0 L "0x2000"] assms by (simp_all add: a_def)
  have rb: "0 \<le> a div 256" "a div 256 < 0x20"
    using div256_bounds[of 0 a "0x20"] ra by simp_all
  have c: "(a div 256 + 192) mod 256 = a div 256 + 192" using rb by simp
  have "send_length L = Inr [a div 256 + 192, a mod 256, L mod 256]"
    using assms rb
    by (simp add: send_length_def bytes_def o and_255 drop_bit_16 drop_bit_8 a1 a2 b1 b2 c Let_def)
  then show ?thesis by (simp add: a_def)
qed

lemma recompose3:
  fixes L a b r0 r1 :: int
  assumes "L = 256 * a + r0" "a = 256 * b + r1"
  shows "b * 65536 + r1 * 256 + r0 = L"
  using assms by simp

lemma read_length_3:
  assumes "0x4000 \<le> L" "L < 0x200000"
  shows "read_length ([L div 256 div 256 + 192, L div 256 mod 256, L mod 256] @ rest) = Inr (L, rest)"
proof -
  define a where "a = L div 256"
  have ra: "0 \<le> a" "a < 0x2000"
    using div256_bounds[of 0 L "0x2000"] assms by (simp_all add: a_def)
  have rb: "0 \<le> a div 256" "a div 256 < 0x20"
    using div256_bounds[of 0 a "0x20"] ra by simp_all
  have e: "(a div 256 + 192) mod 32 = a div 256"
    using small_mod[of "a div 256" 32 6] rb by simp
  have f: "a div 256 * 65536 + a mod 256 * 256 + L mod 256 = L"
    by (rule recompose3[where a = a]) (simp_all add: a_def)
  have "read_length ([a div 256 + 192, a mod 256, L mod 256] @ rest) = Inr (L, rest)"
    using rb by (simp add: read_length_def and_31 push_bit_eq_mult e f)
  then show ?thesis by (simp add: a_def)
qed


lemma recompose4:
  fixes L a b c r0 r1 r2 :: int
  assumes "L = 256 * a + r0" "a = 256 * b + r1" "b = 256 * c + r2"
  shows "c * 16777216 + r2 * 65536 + r1 * 256 + r0 = L"
  using assms by simp

lemma send_length_4:
  assumes "0x200000 \<le> L" "L < 0x10000000"
  shows "send_length L =
    Inr [L div 256 div 256 div 256 + 224, L div 256 div 256 mod 256, L div 256 mod 256, L mod 256]"
proof -
  define a where "a = L div 256"
  define b where "b = a div 256"
  have o: "L OR 0xE0000000 = L + 0xE0000000" using assms by (intro or_E0000000) auto
  have a1: "(L + 0xE0000000) div 256 = a + 0xE00000"
    using add_high_div[of L "0xE00000"] by (simp add: a_def)
  have a2: "(L + 0xE0000000) mod 256 = L mod 256"
    using add_high_mod[of L "0xE00000"] by simp
  have b1: "(a + 0xE00000) div 256 = b + 0xE000"
    using add_high_div[of a "0xE000"] by (simp add: b_def)
  have b2: "(a + 0xE00000) mod 256 = a mod 256"
    using add_high_mod[of a "0xE000"] by simp
  have c1: "(b + 0xE000) div 256 = b div 256 + 0xE0"
    using add_high_div[of b "0xE0"] by simp
  have c2: "(b + 0xE000) mod 256 = b mod 256"
    using add_high_mod[of b "0xE0"] by simp
  have ra: "0 \<le> a" "a < 0x100000"
    using div256_bounds[of 0 L "0x100000"] assms by (simp_all add: a_def)
  have rb: "0 \<le> b" "b < 0x1000"
    using div256_bounds[of 0 a "0x1000"] ra by (simp_all add: b_def)
  have rc: "0 \<le> b div 256" "b div 256 < 0x10"
    using div256_bounds[of 0 b "0x10"] rb by simp_all
  have c: "(b div 256 + 224) mod 256 = b div 256 + 224" using rc by simp
  have "send_length L = Inr [b div 256 + 224, b mod 256, a mod 256, L mod 256]"
    using assms rc
    by (simp add: send_length_def bytes_def o and_255 drop_bit_24 drop_bit_16 drop_bit_8
        a1 a2 b1 b2 c1 c2 c Let_def)
  then show ?thesis by (simp add: a_def b_def)
qed

lemma read_length_4:
  assumes "0x200000 \<le> L" "L < 0x10000000"
  shows "read_length ([L div 256 div 256 div 256 + 224, L div 256 div 256 mod 256,
                       L div 256 mod 256, L mod 256] @ rest) = Inr (L, rest)"
proof -
  define a where "a = L div 256"
  define b where "b = a div 256"
  have ra: "0 \<le> a" "a < 0x100000"
    using div256_bounds[of 0 L "0x100000"] assms by (simp_all add: a_def)
  have rb: "0 \<le> b" "b < 0x1000"
    using div256_bounds[of 0 a "0x1000"] ra by (simp_all add: b_def)
  have rc: "0 \<le> b div 256" "b div 256 < 0x10"
    using div256_bounds[of 0 b "0x10"] rb by simp_all
  have e: "(b div 256 + 224) mod 16 = b div 256"
    using small_mod[of "b div 256" 16 14] rc by simp
  have f: "b div 256 * 16777216 + b mod 256 * 65536 + a mod 256 * 256 + L mod 256 = L"
    by (rule recompose4[where a = a and b = b]) (simp_all add: a_def b_def)
  have "read_length ([b div 256 + 224, b mod 256, a mod 256, L mod 256] @ rest) = Inr (L, rest)"
    using rc by (simp add: read_length_def and_15 push_bit_eq_mult e f)
  then show ?thesis by (simp add: a_def b_def)
qed

lemma send_length_5:
  assumes "0x10000000 \<le> L" "L < 2 ^ 32"
  shows "send_length L =
    Inr [0xF0, L div 256 div 256 div 256, L div 256 div 256 mod 256, L div 256 mod 256, L mod 256]"
proof -
  define a where "a = L div 256"
  define b where "b = a div 256"
  have ra: "0 \<le> a" "a < 0x1000000"
    using div256_bounds[of 0 L "0x1000000"] assms by (simp_all add: a_def)
  have rb: "0 \<le> b" "b < 0x10000"
    using div256_bounds[of 0 a "0x10000"] ra by (simp_all add: b_def)
  have rc: "0 \<le> b div 256" "b div 256 < 0x100"
    using div256_bounds[of 0 b "0x100"] rb by simp_all
  have c: "b div 256 mod 256 = b div 256" using rc by simp
  have "send_length L = Inr [0xF0, b div 256, b mod 256, a mod 256, L mod 256]"
    using assms rc
    by (simp add: send_length_def bytes_def and_255 drop_bit_24 drop_bit_16 drop_bit_8 c
        flip: a_def b_def)
  then show ?thesis by (simp add: a_def b_def)
qed

lemma read_length_5:
  "read_length ([0xF0, L div 256 div 256 div 256, L div 256 div 256 mod 256,
                 L div 256 mod 256, L mod 256] @ rest) = Inr (L, rest)"
proof -
  define a where "a = L div 256"
  define b where "b = a div 256"
  have f: "b div 256 * 16777216 + b mod 256 * 65536 + a mod 256 * 256 + L mod 256 = L"
    by (rule recompose4[where a = a and b = b]) (simp_all add: a_def b_def)
  have "read_length ([0xF0, b div 256, b mod 256, a mod 256, L mod 256] @ rest) = Inr (L, rest)"
    by (simp add: read_length_def push_bit_eq_mult f)
  then show ?thesis by (simp add: a_def b_def)
qed

lemma big_endian_bytes:
  fixes L :: int
  assumes "0 \<le> L" "L < 2 ^ 32"
  shows "L div 256 div 256 div 256 = L div 2 ^ 24 mod 256"
    and "L div 256 div 256 mod 256 = L div 2 ^ 16 mod 256"
    and "L div 256 mod 256 = L div 2 ^ 8 mod 256"
proof -
  define a where "a = L div 256"
  define b where "b = a div 256"
  have ra: "0 \<le> a" "a < 0x1000000"
    using div256_bounds[of 0 L "0x1000000"] assms by (simp_all add: a_def)
  have rb: "0 \<le> b" "b < 0x10000"
    using div256_bounds[of 0 a "0x10000"] ra by (simp_all add: b_def)
  have rc: "0 \<le> b div 256" "b div 256 < 0x100"
    using div256_bounds[of 0 b "0x100"] rb by simp_all
  have "L div 2 ^ 24 = L div 256 div 256 div 256"
    by (simp add: zdiv_zmult2_eq[symmetric])
  then show "L div 256 div 256 div 256 = L div 2 ^ 24 mod 256"
    using rc by (simp add: a_def b_def)
  show "L div 256 div 256 mod 256 = L div 2 ^ 16 mod 256"
    by (simp add: zdiv_zmult2_eq[symmetric])
  show "L div 256 mod 256 = L div 2 ^ 8 mod 256"
    by simp
qed

text \<open>
  Claim C1. For every \<open>L\<close> with \<open>0 \<le> L < 2^32\<close>, the bytes that \<open>send_length L\<close>
  emits are decoded by \<open>read_length\<close> back to \<open>L\<close>, leaving whatever follows them on
  the stream untouched; this covers both sides of each threshold \<open>0x80\<close>, \<open>0x4000\<close>,
  \<open>0x200000\<close>, \<open>0x10000000\<close>. From \<open>0x10000000\<close> on, the encoding is the byte
  \<open>0xF0\<close> followed by the four big-endian bytes of \<open>L\<close>.
\<close>

theorem length_prefix_roundtrip:
  assumes "0 \<le> L" "L < 2 ^ 32"
  shows "\<exists>bs. send_length L = Inr bs \<and> read_length (bs @ rest) = Inr (L, rest) \<and>
           (0x10000000 \<le> L \<longrightarrow>
              bs = [0xF0, L div 2 ^ 24 mod 256, L div 2 ^ 16 mod 256, L div 2 ^ 8 mod 256, L mod 256])"
proof -
  consider "L < 0x80" | "0x80 \<le> L" "L < 0x4000" | "0x4000 \<le> L" "L < 0x200000"
    | "0x200000 \<le> L" "L < 0x10000000" | "0x10000000 \<le> L"
    by linarith
  then show ?thesis
  proof cases
    case 1
    then show ?thesis using assms send_length_1[of L] read_length_1[of L rest] by simp
  next
    case 2
    then show ?thesis using send_length_2[of L] read_length_2[of L rest] by simp
  next
    case 3
    then show ?thesis using send_length_3[of L] read_length_3[of L rest] by simp
  next
    case 4
    then show ?thesis using send_length_4[of L] read_length_4[of L rest] by simp
  next
    case 5
    let ?bs = "[0xF0, L div 256 div 256 div 256, L div 256 div 256 mod 256, L div 256 mod 256, L mod 256]"
    have s: "send_length L = Inr ?bs"
      using 5 assms(2) by (rule send_length_5)
    have r: "read_length (?bs @ rest) = Inr (L, rest)"
      by (rule read_length_5)
    have be: "?bs = [0xF0, L div 2 ^ 24 mod 256, L div 2 ^ 16 mod 256, L div 2 ^ 8 mod 256, L mod 256]"
      by (simp only: big_endian_bytes[OF assms, symmetric])
    from s r be show ?thesis by blast
  qed
qed

theorem length_prefix_roundtrip_witness:
  "\<exists>bs. send_length 0x10000000 = Inr bs \<and> read_length (bs @ [33, 114]) = Inr (0x10000000, [33, 114])
     \<and> bs = [0xF0, 0x10, 0, 0, 0]"
proof -
  have h: "(0::int) \<le> 0x10000000" "(0x10000000::int) < 2 ^ 32" by simp_all
  from length_prefix_roundtrip[OF h, of "[33, 114]"]
  obtain bs where b: "send_length 0x10000000 = Inr bs"
      "read_length (bs @ [33, 114]) = Inr (0x10000000, [33, 114])"
      "bs = [0xF0, 0x10000000 div 2 ^ 24 mod 256, 0x10000000 div 2 ^ 16 mod 256,
             0x10000000 div 2 ^ 8 mod 256, 0x10000000 mod 256]"
    by auto
  have "bs = [0xF0, 0x10, 0, 0, 0]" unfolding b(3) by simp
  with b(1,2) show ?thesis by blast
qed


section \<open>The response loop, one step at a time\<close>

lemma startswith_Cons_iff:
  "startswith s (p # ps) \<longleftrightarrow> (\<exists>cs. s = p # cs \<and> startswith cs ps)"
  by (cases s) auto

lemma read_response_exhausted: "read_response None response [] = (Inl IndexError, [])"
  by (subst read_response.simps) simp

lemma read_response_pushback:
  "read_response (Some w) response ws = read_response None response (w # ws)"
  by (subst read_response.simps, subst (2) read_response.simps) simp

lemma read_response_empty: "read_response None response ([] # ws) = (Inr response, ws)"
  by (subst read_response.simps) simp

lemma read_response_re:
  "startswith w ''!re'' \<Longrightarrow>
   read_response None response (w # ws) =
     (case read_re ws Map.empty of
        Inl e \<Rightarrow> (Inl e, [])
      | Inr (data, nc, ws2) \<Rightarrow> read_response nc (response @ [data]) ws2)"
  by (subst read_response.simps) (auto simp: startswith_Cons_iff)

lemma read_response_done:
  "startswith w ''!done'' \<Longrightarrow> read_response None response (w # ws) = (Inr response, ws)"
  by (subst read_response.simps) (auto simp: startswith_Cons_iff)

lemma read_response_trap:
  "startswith w ''!trap'' \<or> startswith w ''!fatal'' \<Longrightarrow>
   read_response None response (w # ws) =
     (case read_trap ws ''Unknown error'' of (e, ws2) \<Rightarrow> (Inl e, ws2))"
  by (subst read_response.simps) (auto simp: startswith_Cons_iff)




lemma read_trap_sentence:
  "list_all attribute_word attrs \<Longrightarrow> t = [] \<or> startswith t ''!'' \<Longrightarrow>
   read_trap (attrs @ t # rest) msg =
     (MikroTikAPIError (''Command failed: '' @
        (case filter (\<lambda>a. startswith a ''=message='') attrs of
           [] \<Rightarrow> msg
         | m # ms \<Rightarrow> drop 9 (last (m # ms)))), rest)"
proof (induction attrs arbitrary: msg)
  case Nil
  then show ?case by auto
next
  case (Cons a attrs)
  from Cons.prems(1) have aw: "attribute_word a" and as: "list_all attribute_word attrs"
    by simp_all
  from aw have a: "a \<noteq> []" "\<not> startswith a ''!''"
    by (simp_all add: attribute_word_def)
  show ?case
  proof (cases "startswith a ''=message=''")
    case True
    then show ?thesis
      using a Cons.IH[OF as Cons.prems(2), of "drop 9 a"]
      by (cases "filter (\<lambda>a. startswith a ''=message='') attrs") simp_all
  next
    case False
    then show ?thesis
      using a Cons.IH[OF as Cons.prems(2), of msg] by simp
  qed
qed




section \<open>Commands on a connected session\<close>

lemma send_words_foldl:
  "foldl (\<lambda>s (key, val). send_word s (''='' @ key @ ''='' @ val)) s arguments =
     s\<lparr>sent := sent s @ map (\<lambda>(key, val). ''='' @ key @ ''='' @ val) arguments\<rparr>"
  by (induction arguments arbitrary: s) (auto simp: send_word_def)

lemma send_command_connected:
  assumes "connected s"
  shows "send_command s command arguments =
     (case read_response None [] (incoming s) of
        (Inl e, ws) \<Rightarrow>
          (Inl (MikroTikAPIError (''Command execution failed: '' @ str_exception e)),
           s\<lparr>sent := sent s @ command_words command arguments, incoming := ws\<rparr>)
      | (Inr response, ws) \<Rightarrow>
          (Inr response, s\<lparr>sent := sent s @ command_words command arguments, incoming := ws\<rparr>))"
proof -
  have "send_word (foldl (\<lambda>s (key, val). send_word s (''='' @ key @ ''='' @ val))
                     (send_word s command) arguments) [] =
        s\<lparr>sent := sent s @ command_words command arguments\<rparr>"
    by (simp only: send_words_foldl) (simp add: send_word_def command_words_def)
  then show ?thesis
    using assms by (simp add: send_command_def Let_def split: prod.splits sum.splits)
qed

lemma send_command_sent:
  "connected s \<Longrightarrow> send_command s command arguments = (r, s') \<Longrightarrow>
   sent s' = sent s @ command_words command arguments \<and> connected s'"
  by (auto simp: send_command_connected split: prod.splits sum.splits)

text \<open>
  Claim C6, as amended. Wherever the response loop of a command comes to a \<open>!trap\<close> or
  \<open>!fatal\<close> sentence, as the next word of the stream or as the word in its one-slot
  buffer, and whatever replies it has accumulated by then, it raises the
  \<open>MikroTikAPIError\<close> with the text \<open>Command failed: \<close> followed by the value of the
  last \<open>=message=\<close> attribute of the sentence, or by \<open>Unknown error\<close> when the
  sentence has none; the sentence ends at the first empty word or control word. The
  command then fails with that text behind \<open>Command execution failed: \<close>.
\<close>

theorem trap_message_is_last:
  assumes "startswith w ''!trap'' \<or> startswith w ''!fatal''"
    and "list_all attribute_word attrs"
    and "t = [] \<or> startswith t ''!''"
  shows "read_response None response (w # attrs @ t # rest) =
           (Inl (MikroTikAPIError (''Command failed: '' @ last_message attrs)), rest)
       \<and> read_response (Some w) response (attrs @ t # rest) =
           (Inl (MikroTikAPIError (''Command failed: '' @ last_message attrs)), rest)
       \<and> (connected s
            \<and> read_response None [] (incoming s) =
                read_response None response (w # attrs @ t # rest)
          \<longrightarrow> fst (send_command s command arguments) =
                Inl (MikroTikAPIError
                       (''Command execution failed: Command failed: '' @ last_message attrs)))"
proof -
  have loop: "read_response None response (w # attrs @ t # rest) =
          (Inl (MikroTikAPIError (''Command failed: '' @ last_message attrs)), rest)"
    using assms
    by (simp add: read_response_trap read_trap_sentence last_message_def split: list.splits)
  then have slot: "read_response (Some w) response (attrs @ t # rest) =
          (Inl (MikroTikAPIError (''Command failed: '' @ last_message attrs)), rest)"
    by (simp add: read_response_pushback)
  have cmd: "fst (send_command s command arguments) =
          Inl (MikroTikAPIError
                 (''Command execution failed: Command failed: '' @ last_message attrs))"
    if "connected s"
      and "read_response None [] (incoming s) = read_response None response (w # attrs @ t # rest)"
    using that by (simp add: send_command_connected loop)
  from loop slot cmd show ?thesis by blast
qed

theorem trap_message_is_last_witness:
  "fst (send_command
          \<lparr>connected = True, sent = [],
             incoming = [''!trap'', ''=message=Invalid group'', []]\<rparr>
          ''/user/add'' [(''name'', ''temp-1'')]) =
     Inl (MikroTikAPIError ''Command execution failed: Command failed: Invalid group'')
   \<and> fst (send_command
          \<lparr>connected = True, sent = [],
             incoming = [''!re'', ''=a=1'', [], ''!fatal'', ''=category=2'', ''!done'']\<rparr>
          ''/user/print'' []) =
     Inl (MikroTikAPIError ''Command execution failed: Command failed: Unknown error'')"
proof -
  let ?s = "\<lparr>connected = True, sent = [],
              incoming = [''!trap'', ''=message=Invalid group'', []]\<rparr>"
  let ?s' = "\<lparr>connected = True, sent = [],
              incoming = [''!re'', ''=a=1'', [], ''!fatal'', ''=category=2'', ''!done'']\<rparr>"
  have h: "startswith ''!trap'' ''!trap'' \<or> startswith ''!trap'' ''!fatal''"
      "list_all attribute_word [''=message=Invalid group'']"
      "[] = [] \<or> startswith [] ''!''"
    by (simp_all add: attribute_word_def)
  have h': "startswith ''!fatal'' ''!trap'' \<or> startswith ''!fatal'' ''!fatal''"
      "list_all attribute_word [''=category=2'']"
      "''!done'' = [] \<or> startswith ''!done'' ''!''"
    by (simp_all add: attribute_word_def)
  have r: "read_response None [] (incoming ?s') =
           read_response None [[''a'' \<mapsto> ''1'']] (''!fatal'' # [''=category=2''] @ ''!done'' # [])"
    by (simp add: read_response_re partition_eq_def)
  from trap_message_is_last[OF h, of "[]" "[]" ?s "''/user/add''" "[(''name'', ''temp-1'')]"]
  have 1: "fst (send_command ?s ''/user/add'' [(''name'', ''temp-1'')]) =
     Inl (MikroTikAPIError (''Command execution failed: Command failed: ''
            @ last_message [''=message=Invalid group'']))"
    by simp
  from trap_message_is_last[OF h', of "[[''a'' \<mapsto> ''1'']]" "[]" ?s' "''/user/print''" "[]"] r
  have 2: "fst (send_command ?s' ''/user/print'' []) =
     Inl (MikroTikAPIError (''Command execution failed: Command failed: ''
            @ last_message [''=category=2'']))"
    by simp
  from 1 2 show ?thesis by (simp add: last_message_def)
qed

text \<open>
  The claim as stated, with the message of the first \<open>=message=\<close> attribute, fails on
  a trap sentence with two of them: the error carries the second.
\<close>

theorem first_message_counterexample:
  "fst (send_command
          \<lparr>connected = True, sent = [],
             incoming = [''!trap'', ''=message=no such item'', ''=message=failure'', []]\<rparr>
          ''/user/remove'' [(''numbers'', ''temp-1'')]) =
     Inl (MikroTikAPIError ''Command execution failed: Command failed: failure'')
   \<and> fst (send_command
          \<lparr>connected = True, sent = [],
             incoming = [''!trap'', ''=message=no such item'', ''=message=failure'', []]\<rparr>
          ''/user/remove'' [(''numbers'', ''temp-1'')]) \<noteq>
     Inl (MikroTikAPIError
            (''Command execution failed: Command failed: ''
             @ first_message [''=message=no such item'', ''=message=failure'']))"
  by (simp add: send_command_connected read_response_trap first_message_def)





section \<open>Sessions opened by connect\<close>

lemma connect_True_connected:
  "connect net username password = (True, api) \<Longrightarrow> connected api"
  by (auto simp: connect_def disconnect_def split: option.splits prod.splits bool.splits)

lemma test_connection_reachable:
  "reachable \<Longrightarrow> \<exists>test_identity msg.
     test_connection self reachable net = Test_Success test_identity msg"
  by (simp add: test_connection_def Let_def)

lemma command_words_numbers:
  "command_words c [(''numbers'', u)] = [c, ''=numbers='' @ u, []]"
  by (simp add: command_words_def)

section \<open>Create: rollback\<close>

text \<open>
  Claim C2. In \<open>create_temporary_user\<close> of the manager, and in
  \<open>MikroTikAPI_create_temporary_user\<close> alike: when \<open>/user/add\<close> succeeds and the
  following \<open>/system/scheduler/add\<close> raises \<open>e\<close>, the function sends
  \<open>/user/remove\<close> with \<open>numbers\<close> set to the same user name as the last words on the
  session before it returns, and it returns the failure built from \<open>e\<close>. Whatever the
  rollback command gives, a reply or an exception of its own (\<open>rollback\<close> is arbitrary),
  the returned failure is the same.
\<close>

theorem rollback_before_failure:
  "(reachable
      \<and> generate_temp_credentials now rnd username_prefix = (temp_username, temp_password)
      \<and> group_name = (case group_arg of None \<Rightarrow> ''read'' | Some g \<Rightarrow> if g = [] then ''read'' else g)
      \<and> connect net_api (service_user self) (service_pass self) = (True, api)
      \<and> send_command api ''/user/add''
            (user_add_arguments temp_username temp_password group_name duration_minutes)
          = (Inr added, api1)
      \<and> send_command api1 ''/system/scheduler/add''
            (scheduler_add_arguments temp_username duration_minutes) = (Inl e, api2)
      \<and> send_command api2 ''/user/remove'' [(''numbers'', temp_username)] = (rollback, api3)
    \<longrightarrow> create_temporary_user self reachable net_test now rnd net_api net_temp
          duration_minutes username_prefix group_arg
        = (Create_Failure (''Failed to create cleanup scheduler: '' @ str_exception e),
           Some (disconnect api3))
      \<and> sent (disconnect api3) =
          sent api2 @ [''/user/remove'', ''=numbers='' @ temp_username, []])
   \<and> (connect net service_username service_password = (True, api)
      \<and> send_command api ''/user/add'' (user_args username password duration_minutes)
          = (Inr added, api1)
      \<and> send_command api1 ''/system/scheduler/add'' (scheduler_args username duration_minutes)
          = (Inl e, api2)
      \<and> send_command api2 ''/user/remove'' [(''numbers'', username)] = (rollback, api3)
    \<longrightarrow> MikroTikAPI_create_temporary_user net service_username service_password
          username password duration_minutes
        = (Api_Create_Failure (''Failed to create cleanup scheduler: '' @ str_exception e),
           disconnect api3)
      \<and> sent (disconnect api3) = sent api2 @ [''/user/remove'', ''=numbers='' @ username, []])"
proof (intro conjI impI; elim conjE)
  assume a: "reachable"
    "generate_temp_credentials now rnd username_prefix = (temp_username, temp_password)"
    "group_name = (case group_arg of None \<Rightarrow> ''read'' | Some g \<Rightarrow> if g = [] then ''read'' else g)"
    "connect net_api (service_user self) (service_pass self) = (True, api)"
    "send_command api ''/user/add''
       (user_add_arguments temp_username temp_password group_name duration_minutes)
     = (Inr added, api1)"
    "send_command api1 ''/system/scheduler/add''
       (scheduler_add_arguments temp_username duration_minutes) = (Inl e, api2)"
    "send_command api2 ''/user/remove'' [(''numbers'', temp_username)] = (rollback, api3)"
  show "create_temporary_user self reachable net_test now rnd net_api net_temp
          duration_minutes username_prefix group_arg
        = (Create_Failure (''Failed to create cleanup scheduler: '' @ str_exception e),
           Some (disconnect api3))"
  proof -
    obtain test_identity msg
      where t: "test_connection self reachable net_test = Test_Success test_identity msg"
      using test_connection_reachable[OF a(1)] by blast
    show ?thesis
      using a(5-7) unfolding create_temporary_user_def t a(2) a(4) a(3)[symmetric]
      by (simp add: Let_def)
  qed
  have "connected api" using a(4) by (rule connect_True_connected)
  then have "connected api1" using a(5) send_command_sent by blast
  then have "connected api2" using a(6) send_command_sent by blast
  then show "sent (disconnect api3) = sent api2 @ [''/user/remove'', ''=numbers='' @ temp_username, []]"
    using a(7) send_command_sent[of api2 "''/user/remove''" "[(''numbers'', temp_username)]" rollback api3]
    by (simp add: disconnect_def command_words_numbers)
next
  assume a: "connect net service_username service_password = (True, api)"
    "send_command api ''/user/add'' (user_args username password duration_minutes)
     = (Inr added, api1)"
    "send_command api1 ''/system/scheduler/add'' (scheduler_args username duration_minutes)
     = (Inl e, api2)"
    "send_command api2 ''/user/remove'' [(''numbers'', username)] = (rollback, api3)"
  show "MikroTikAPI_create_temporary_user net service_username service_password
          username password duration_minutes
        = (Api_Create_Failure (''Failed to create cleanup scheduler: '' @ str_exception e),
           disconnect api3)"
    using a by (simp add: MikroTikAPI_create_temporary_user_def)
  have "connected api" using a(1) by (rule connect_True_connected)
  then have "connected api1" using a(2) send_command_sent by blast
  then have "connected api2" using a(3) send_command_sent by blast
  then show "sent (disconnect api3) = sent api2 @ [''/user/remove'', ''=numbers='' @ username, []]"
    using a(4) send_command_sent[of api2 "''/user/remove''" "[(''numbers'', username)]" rollback api3]
    by (simp add: disconnect_def command_words_numbers)
qed


theorem rollback_before_failure_witness:
  "fst (create_temporary_user
          \<lparr>service_user = ''svc'', service_pass = ''pw'', api_port = 8728\<rparr> True None
          1700000000 (\<lambda>i. 7 * i + 3)
          (Some [''!done'', ''!done'', ''!trap'', ''=message=bad interval'', [],
                 ''!trap'', ''=message=no such item'', []])
          None 90 ''temp-'' None)
     = Create_Failure
         ''Failed to create cleanup scheduler: Command execution failed: Command failed: bad interval''
   \<and> fst (MikroTikAPI_create_temporary_user
          (Some [''!done'', ''!done'', ''!trap'', ''=message=bad interval'', [],
                 ''!trap'', ''=message=no such item'', []])
          ''svc'' ''pw'' ''temp_1'' ''secret'' 90)
     = Api_Create_Failure
         ''Failed to create cleanup scheduler: Command execution failed: Command failed: bad interval''"
proof -
  let ?self = "\<lparr>service_user = ''svc'', service_pass = ''pw'', api_port = 8728\<rparr>"
  let ?net = "Some [''!done'', ''!done'', ''!trap'', ''=message=bad interval'', [],
                    ''!trap'', ''=message=no such item'', []]"
  let ?e = "MikroTikAPIError ''Command execution failed: Command failed: bad interval''"
  obtain u p where g: "generate_temp_credentials 1700000000 (\<lambda>i. 7 * i + 3) ''temp-'' = (u, p)"
    by (cases "generate_temp_credentials 1700000000 (\<lambda>i. 7 * i + 3) ''temp-''") blast
  have "\<exists>api. connect ?net ''svc'' ''pw'' = (True, api) \<and> connected api
          \<and> incoming api = [''!done'', ''!trap'', ''=message=bad interval'', [],
                             ''!trap'', ''=message=no such item'', []]"
    by (simp add: connect_def login_def send_word_def)
  then obtain api where c: "connect ?net ''svc'' ''pw'' = (True, api)" "connected api"
      "incoming api = [''!done'', ''!trap'', ''=message=bad interval'', [],
                       ''!trap'', ''=message=no such item'', []]"
    by blast
  have first: "\<exists>api1. send_command api ''/user/add'' args = (Inr [], api1) \<and> connected api1
          \<and> incoming api1 = [''!trap'', ''=message=bad interval'', [],
                              ''!trap'', ''=message=no such item'', []]" for args
    using c(2,3) by (simp add: send_command_connected read_response_done)
  have second: "\<exists>api2. send_command api1 ''/system/scheduler/add'' args = (Inl ?e, api2)"
    if "connected api1"
      "incoming api1 = [''!trap'', ''=message=bad interval'', [],
                        ''!trap'', ''=message=no such item'', []]" for api1 args
    using that by (simp add: send_command_connected read_response_trap)
  have third: "\<exists>rollback api3. send_command api2 ''/user/remove'' args = (rollback, api3)"
    for api2 args
    by (cases "send_command api2 ''/user/remove'' args") blast
  obtain api1 where s1: "send_command api ''/user/add'' (user_add_arguments u p ''read'' 90)
        = (Inr [], api1)" "connected api1"
      "incoming api1 = [''!trap'', ''=message=bad interval'', [],
                        ''!trap'', ''=message=no such item'', []]"
    using first by blast
  obtain api2 where s2: "send_command api1 ''/system/scheduler/add''
        (scheduler_add_arguments u 90) = (Inl ?e, api2)"
    using second[OF s1(2,3)] by blast
  obtain rollback api3 where s3: "send_command api2 ''/user/remove'' [(''numbers'', u)]
        = (rollback, api3)"
    using third by blast
  obtain b1 where t1: "send_command api ''/user/add'' (user_args ''temp_1'' ''secret'' 90)
        = (Inr [], b1)" "connected b1"
      "incoming b1 = [''!trap'', ''=message=bad interval'', [],
                      ''!trap'', ''=message=no such item'', []]"
    using first by blast
  obtain b2 where t2: "send_command b1 ''/system/scheduler/add''
        (scheduler_args ''temp_1'' 90) = (Inl ?e, b2)"
    using second[OF t1(2,3)] by blast
  obtain rb b3 where t3: "send_command b2 ''/user/remove'' [(''numbers'', ''temp_1'')] = (rb, b3)"
    using third by blast
  have m: "create_temporary_user ?self True None 1700000000 (\<lambda>i. 7 * i + 3) ?net None 90
             ''temp-'' None
           = (Create_Failure (''Failed to create cleanup scheduler: '' @ str_exception ?e),
              Some (disconnect api3))"
    using rollback_before_failure[where reachable = True and now = 1700000000
        and rnd = "\<lambda>i. 7 * i + 3" and username_prefix = "''temp-''"
        and temp_username = u and temp_password = p and group_name = "''read''"
        and group_arg = None and net_api = ?net and self = ?self and api = api
        and duration_minutes = 90 and added = "[]" and ?api1.0 = api1 and e = ?e
        and ?api2.0 = api2 and rollback = rollback and ?api3.0 = api3
        and net_test = None and net_temp = None]
      g c(1) s1(1) s2 s3
    by simp
  have a: "MikroTikAPI_create_temporary_user ?net ''svc'' ''pw'' ''temp_1'' ''secret'' 90
           = (Api_Create_Failure (''Failed to create cleanup scheduler: '' @ str_exception ?e),
              disconnect b3)"
    using rollback_before_failure[where net = ?net and service_username = "''svc''"
        and service_password = "''pw''" and username = "''temp_1''"
        and password = "''secret''" and self = ?self and api = api
        and duration_minutes = 90 and added = "[]" and ?api1.0 = b1 and e = ?e
        and ?api2.0 = b2 and rollback = rb and ?api3.0 = b3]
      c(1) t1(1) t2 t3
    by simp
  show ?thesis unfolding m a by simp
qed


section \<open>Revoke\<close>

text \<open>
  Claim C4. In \<open>revoke_temporary_user\<close>, once the device was reachable and the service
  session connected and logged in, the result is the success record whatever
  \<open>/user/remove\<close> gave (\<open>removed\<close> is arbitrary: a reply or an exception), and
  \<open>/system/scheduler/remove\<close> for \<open>cleanup-<username>\<close> is sent right after it.
\<close>

theorem revoke_is_tolerant:
  assumes "reachable"
    and "connect net_api (service_user self) (service_pass self) = (True, api)"
    and "send_command api ''/user/remove'' [(''numbers'', username)] = (removed, api1)"
    and "send_command api1 ''/system/scheduler/remove'' [(''numbers'', ''cleanup-'' @ username)]
         = (unscheduled, api2)"
  shows "revoke_temporary_user self reachable net_test net_api username
           = (Revoke_Success (''User '' @ username @ '' revoked successfully''),
              Some (disconnect api2))
       \<and> sent (disconnect api2) =
           sent api @ [''/user/remove'', ''=numbers='' @ username, [],
                       ''/system/scheduler/remove'', ''=numbers=cleanup-'' @ username, []]"
proof
  obtain test_identity msg
    where t: "test_connection self reachable net_test = Test_Success test_identity msg"
    using test_connection_reachable[OF assms(1)] by blast
  show "revoke_temporary_user self reachable net_test net_api username
          = (Revoke_Success (''User '' @ username @ '' revoked successfully''),
             Some (disconnect api2))"
    using assms(3,4) unfolding revoke_temporary_user_def t assms(2) by (simp add: Let_def)
  have c0: "connected api" using assms(2) by (rule connect_True_connected)
  from send_command_sent[OF c0 assms(3)]
  have c1: "connected api1" and w1: "sent api1 = sent api @ [''/user/remove'', ''=numbers='' @ username, []]"
    by (simp_all add: command_words_numbers)
  from send_command_sent[OF c1 assms(4)]
  have "sent api2 = sent api1 @ [''/system/scheduler/remove'', ''=numbers=cleanup-'' @ username, []]"
    by (simp add: command_words_numbers)
  then show "sent (disconnect api2) =
           sent api @ [''/user/remove'', ''=numbers='' @ username, [],
                       ''/system/scheduler/remove'', ''=numbers=cleanup-'' @ username, []]"
    by (simp add: w1 disconnect_def)
qed

theorem revoke_is_tolerant_witness:
  "\<exists>api. revoke_temporary_user
          \<lparr>service_user = ''svc'', service_pass = ''pw'', api_port = 8728\<rparr> True None
          (Some [''!done'', ''!trap'', ''=message=no such item'', [], ''!done'', []])
          ''temp-1700000000-dkry''
     = (Revoke_Success ''User temp-1700000000-dkry revoked successfully'', Some api)
   \<and> sent api = [''/login'', ''=name=svc'', ''=password=pw'', [],
                  ''/user/remove'', ''=numbers=temp-1700000000-dkry'', [],
                  ''/system/scheduler/remove'', ''=numbers=cleanup-temp-1700000000-dkry'', []]
   \<and> fst (send_command
          \<lparr>connected = True, sent = [''/login'', ''=name=svc'', ''=password=pw'', []],
             incoming = [''!trap'', ''=message=no such item'', [], ''!done'', []]\<rparr>
          ''/user/remove'' [(''numbers'', ''temp-1700000000-dkry'')])
     = Inl (MikroTikAPIError ''Command execution failed: Command failed: no such item'')"
proof -
  let ?self = "\<lparr>service_user = ''svc'', service_pass = ''pw'', api_port = 8728\<rparr>"
  let ?net = "Some [''!done'', ''!trap'', ''=message=no such item'', [], ''!done'', []]"
  let ?api = "\<lparr>connected = True, sent = [''/login'', ''=name=svc'', ''=password=pw'', []],
                incoming = [''!trap'', ''=message=no such item'', [], ''!done'', []]\<rparr>"
  let ?u = "''temp-1700000000-dkry''"
  have c: "connect ?net (service_user ?self) (service_pass ?self) = (True, ?api)"
    by (simp add: connect_def login_def send_word_def)
  have r: "fst (send_command ?api ''/user/remove'' [(''numbers'', ?u)])
     = Inl (MikroTikAPIError ''Command execution failed: Command failed: no such item'')"
    by (simp add: send_command_connected read_response_trap)
  obtain removed api1
    where s1: "send_command ?api ''/user/remove'' [(''numbers'', ?u)] = (removed, api1)"
    by (cases "send_command ?api ''/user/remove'' [(''numbers'', ?u)]") blast
  obtain unscheduled api2
    where s2: "send_command api1 ''/system/scheduler/remove'' [(''numbers'', ''cleanup-'' @ ?u)]
               = (unscheduled, api2)"
    by (cases "send_command api1 ''/system/scheduler/remove'' [(''numbers'', ''cleanup-'' @ ?u)]")
       blast
  have t: "True" by simp
  from revoke_is_tolerant[OF t c s1 s2, of None]
  have "revoke_temporary_user ?self True None ?net ?u
          = (Revoke_Success ''User temp-1700000000-dkry revoked successfully'',
             Some (disconnect api2))
      \<and> sent (disconnect api2) = [''/login'', ''=name=svc'', ''=password=pw'', [],
                  ''/user/remove'', ''=numbers=temp-1700000000-dkry'', [],
                  ''/system/scheduler/remove'', ''=numbers=cleanup-temp-1700000000-dkry'', []]"
    by simp
  with r show ?thesis by blast
qed


section \<open>Identity resolution\<close>

lemma truthy_name_or_identity: "py_truthy (name_or_identity r) = usable_field r"
  by (auto simp: py_truthy_def name_or_identity_def py_or_def usable_field_def split: option.splits)

lemma name_or_identity_first: "resp \<noteq> [] \<Longrightarrow> name_or_identity (hd resp) = first_identity resp"
  by (cases resp)
     (auto simp: py_truthy_def name_or_identity_def py_or_def first_identity_def
       split: option.splits)

lemma command_words_restricted:
  "command_words ''/system/identity/print'' [(''.proplist'', ''name'')] =
     [''/system/identity/print'', ''=.proplist=name'', []]"
  by (simp add: command_words_def)

lemma command_words_plain: "command_words c [] = [c, []]"
  by (simp add: command_words_def)

text \<open>
  Claim C8, as amended. Every identity resolution sends the restricted
  \<open>/system/identity/print\<close> with \<open>.proplist=name\<close> first. It sends the unrestricted
  form at most once more, and exactly when the restricted query returned normally with no
  record, or with a first record that has neither a non-empty \<open>name\<close> nor a non-empty
  \<open>identity\<close> value. The identity is that of the last result: its first record's
  non-empty \<open>name\<close>, otherwise that record's \<open>identity\<close> value, none when the result
  has no record; an exception of either query leaves the resolution with it.
\<close>

theorem identity_print_queries:
  assumes "connected api"
    and "send_command api ''/system/identity/print'' [(''.proplist'', ''name'')] = (r1, api1)"
    and "send_command api1 ''/system/identity/print'' [] = (r2, api2)"
  shows "identity_print api =
           (case r1 of
              Inl e \<Rightarrow> (Inl e, api1)
            | Inr resp \<Rightarrow>
                if fallback_needed r1
                then (case r2 of
                        Inl e \<Rightarrow> (Inl e, api2)
                      | Inr resp2 \<Rightarrow> (Inr (first_identity resp2), api2))
                else (Inr (first_identity resp), api1))
       \<and> sent (snd (identity_print api)) =
           sent api @ [''/system/identity/print'', ''=.proplist=name'', []]
           @ (if fallback_needed r1 then [''/system/identity/print'', []] else [])"
proof -
  from send_command_sent[OF assms(1,2)]
  have c1: "connected api1"
    and w1: "sent api1 = sent api @ [''/system/identity/print'', ''=.proplist=name'', []]"
    by (simp_all add: command_words_restricted)
  from send_command_sent[OF c1 assms(3)]
  have w2: "sent api2 = sent api1 @ [''/system/identity/print'', []]"
    by (simp add: command_words_plain)
  have v: "identity_print api =
           (case r1 of
              Inl e \<Rightarrow> (Inl e, api1)
            | Inr resp \<Rightarrow>
                if fallback_needed r1
                then (case r2 of
                        Inl e \<Rightarrow> (Inl e, api2)
                      | Inr resp2 \<Rightarrow> (Inr (first_identity resp2), api2))
                else (Inr (first_identity resp), api1))"
    unfolding identity_print_def assms(2)
    by (auto simp: assms(3) fallback_needed_def truthy_name_or_identity name_or_identity_first
        first_identity_def split: sum.splits)
  show ?thesis
    unfolding v by (auto simp: w1 w2 split: sum.splits simp: fallback_needed_def)
qed

theorem identity_print_queries_witness:
  "identity_print
     \<lparr>connected = True, sent = [], incoming = [''!re'', ''=name=R1'', [], ''!done'', []]\<rparr>
   = (Inr (Some ''R1''),
      \<lparr>connected = True, sent = [''/system/identity/print'', ''=.proplist=name'', []],
         incoming = [[]]\<rparr>)
   \<and> fst (identity_print
     \<lparr>connected = True, sent = [], incoming = [''!done'', ''!re'', ''=identity=R2'', [], ''!done'']\<rparr>)
     = Inr (Some ''R2'')
   \<and> sent (snd (identity_print
     \<lparr>connected = True, sent = [], incoming = [''!done'', ''!re'', ''=identity=R2'', [], ''!done'']\<rparr>))
     = [''/system/identity/print'', ''=.proplist=name'', [], ''/system/identity/print'', []]"
proof -
  let ?a = "\<lparr>connected = True, sent = [], incoming = [''!re'', ''=name=R1'', [], ''!done'', []]\<rparr>"
  let ?a1 = "\<lparr>connected = True, sent = [''/system/identity/print'', ''=.proplist=name'', []],
         incoming = [[]]\<rparr>"
  let ?b = "\<lparr>connected = True, sent = [], incoming = [''!done'', ''!re'', ''=identity=R2'', [], ''!done'']\<rparr>"
  let ?b1 = "\<lparr>connected = True, sent = [''/system/identity/print'', ''=.proplist=name'', []],
         incoming = [''!re'', ''=identity=R2'', [], ''!done'']\<rparr>"
  have a1: "send_command ?a ''/system/identity/print'' [(''.proplist'', ''name'')]
            = (Inr [[''name'' \<mapsto> ''R1'']], ?a1)"
    by (simp add: send_command_connected read_response_re read_response_done
        partition_eq_def command_words_def)
  obtain r2 a2 where a2: "send_command ?a1 ''/system/identity/print'' [] = (r2, a2)"
    by (cases "send_command ?a1 ''/system/identity/print'' []") blast
  have b1: "send_command ?b ''/system/identity/print'' [(''.proplist'', ''name'')] = (Inr [], ?b1)"
    by (simp add: send_command_connected read_response_done command_words_def)
  have b2: "send_command ?b1 ''/system/identity/print'' []
            = (Inr [[''identity'' \<mapsto> ''R2'']],
               \<lparr>connected = True,
                  sent = [''/system/identity/print'', ''=.proplist=name'', [],
                          ''/system/identity/print'', []],
                  incoming = []\<rparr>)"
    by (simp add: send_command_connected read_response_re read_response_done
        partition_eq_def command_words_def)
  have ca: "connected ?a" and cb: "connected ?b" by simp_all
  have fa: "\<not> fallback_needed (Inr [[''name'' \<mapsto> ''R1'']])"
    by (simp add: fallback_needed_def usable_field_def)
  have fb: "fallback_needed (Inr [])"
    by (simp add: fallback_needed_def)
  from identity_print_queries[OF ca a1 a2] fa
  have 1: "identity_print ?a = (Inr (Some ''R1''), ?a1)"
    by (simp add: first_identity_def)
  from identity_print_queries[OF cb b1 b2] fb
  have 2: "fst (identity_print ?b) = Inr (Some ''R2'')"
    and 3: "sent (snd (identity_print ?b)) =
      [''/system/identity/print'', ''=.proplist=name'', [], ''/system/identity/print'', []]"
    by (simp_all add: first_identity_def)
  from 1 2 3 show ?thesis by blast
qed

text \<open>
  The claim as stated, with the fallback only for a first record that lacks both fields,
  fails on a record whose \<open>name\<close> field is present and empty: the unrestricted query
  is sent all the same.
\<close>

theorem empty_name_counterexample:
  "fst (send_command
          \<lparr>connected = True, sent = [],
             incoming = [''!re'', ''=name='', [], ''!done'', ''!done'']\<rparr>
          ''/system/identity/print'' [(''.proplist'', ''name'')])
     = Inr [[''name'' \<mapsto> []]]
   \<and> sent (snd (identity_print
          \<lparr>connected = True, sent = [],
             incoming = [''!re'', ''=name='', [], ''!done'', ''!done'']\<rparr>))
     = [''/system/identity/print'', ''=.proplist=name'', [], ''/system/identity/print'', []]"
  by (simp add: identity_print_def send_command_connected read_response_re read_response_done
      partition_eq_def command_words_def name_or_identity_def py_or_def py_truthy_def)


section \<open>Intervals\<close>

lemma str_nat_small: "n < 10 \<Longrightarrow> str_nat n = [digit_char n]"
  by (simp add: str_nat.simps)

lemma str_nat_two: "10 \<le> n \<Longrightarrow> n < 100 \<Longrightarrow> str_nat n = [digit_char (n div 10), digit_char (n mod 10)]"
  by (subst str_nat.simps) (simp add: str_nat_small)

lemma format_02d_two_digits:
  assumes "0 \<le> i" "i < 100"
  shows "format_02d i = [digit_char (nat i div 10), digit_char (nat i mod 10)]"
proof (cases "nat i < 10")
  case True
  then show ?thesis using assms
    by (simp add: format_02d_def zfill_def str_nat_small digit_char_def)
next
  case False
  then show ?thesis using assms
    by (simp add: format_02d_def zfill_def str_nat_two)
qed

text \<open>
  The manager's create: for a duration of less than a hundred hours the interval is
  the two digits of \<open>duration div 60\<close>, a colon, the two digits of \<open>duration mod 60\<close>,
  and \<open>:00\<close>; it is the \<open>interval\<close> argument of \<open>/system/scheduler/add\<close>.
\<close>

lemma interval_str_manager:
  assumes "0 \<le> duration_minutes" "duration_minutes < 6000"
  shows "interval_str duration_minutes =
           [digit_char (nat (duration_minutes div 60) div 10),
            digit_char (nat (duration_minutes div 60) mod 10), CHR '':'',
            digit_char (nat (duration_minutes mod 60) div 10),
            digit_char (nat (duration_minutes mod 60) mod 10), CHR '':'', CHR ''0'', CHR ''0'']
       \<and> map_of (scheduler_add_arguments temp_username duration_minutes) ''interval''
           = Some (interval_str duration_minutes)"
proof -
  have h: "0 \<le> duration_minutes div 60" "duration_minutes div 60 < 100"
    using assms by simp_all
  have m: "0 \<le> duration_minutes mod 60" "duration_minutes mod 60 < 100"
    using pos_mod_bound[of 60 duration_minutes] by simp_all
  show ?thesis
    by (simp add: interval_str_def Let_def format_02d_two_digits[OF h]
        format_02d_two_digits[OF m] scheduler_add_arguments_def)
qed

text \<open>
  Claim C3. \<open>MikroTikAPI_create_temporary_user\<close> does not format the interval that way:
  it writes the minutes into the seconds field. For a duration of 5 minutes it sends the
  interval \<open>00:00:05\<close>, where the manager's create sends \<open>00:05:00\<close>.
\<close>

theorem api_interval_counts_seconds:
  "map_of (scheduler_args ''temp_1'' 5) ''interval'' = Some ''00:00:05''
   \<and> ''=interval=00:00:05'' \<in> set (sent (snd (MikroTikAPI_create_temporary_user
          (Some [''!done'', ''!done'', ''!done'']) ''svc'' ''pw'' ''temp_1'' ''secret'' 5)))
   \<and> interval_str 5 = ''00:05:00''"
  by (simp add: scheduler_args_def cleanup_time_def format_02d_def zfill_def str_nat_small
      digit_char_def MikroTikAPI_create_temporary_user_def connect_def login_def send_word_def
      send_command_connected read_response_done command_words_def user_args_def disconnect_def
      interval_str_def)


section \<open>Generated credentials\<close>

lemma startswith_append: "startswith (p @ s) p"
  by (induction p) auto

lemma digit_char_is_digit: "d < 10 \<Longrightarrow> is_digit (digit_char d)"
  unfolding is_digit_def digit_char_def by (rule nth_mem) simp

lemma str_nat_digits: "list_all is_digit (str_nat n)"
proof (induction n rule: str_nat.induct)
  case (1 n)
  show ?case
  proof (cases "n < 10")
    case True
    then show ?thesis by (simp add: str_nat.simps[of n] digit_char_is_digit)
  next
    case False
    then show ?thesis using 1 by (simp add: str_nat.simps[of n] digit_char_is_digit)
  qed
qed

lemma length_str_nat: "10 ^ k \<le> n \<Longrightarrow> n < 10 ^ Suc k \<Longrightarrow> length (str_nat n) = Suc k"
proof (induction k arbitrary: n)
  case 0
  then show ?case by (simp add: str_nat.simps[of n])
next
  case (Suc k)
  have ge: "10 \<le> n"
  proof -
    have "(10::nat) \<le> 10 * 10 ^ k" by simp
    also have "\<dots> \<le> n" using Suc.prems(1) by simp
    finally show ?thesis .
  qed
  have lo: "10 ^ k \<le> n div 10" using Suc.prems(1) by (simp add: less_eq_div_iff_mult_less_eq)
  have hi: "n div 10 < 10 ^ Suc k" using Suc.prems(2) by (simp add: div_less_iff_less_mult)
  show ?case using ge Suc.IH[OF lo hi] by (simp add: str_nat.simps[of n])
qed

lemma choice_mem: "seq \<noteq> [] \<Longrightarrow> choice seq r \<in> set seq"
  by (simp add: choice_def)


lemma length_str_int_10: "10 ^ 9 \<le> now \<Longrightarrow> now < 10 ^ 10 \<Longrightarrow> length (str_int now) = 10"
proof -
  assume a: "(10::int) ^ 9 \<le> now" "now < 10 ^ 10"
  have "(10::nat) ^ 9 \<le> nat now" using a(1) by (simp add: le_nat_iff)
  moreover have "nat now < 10 ^ Suc 9" using a by (simp add: nat_less_iff)
  ultimately have "length (str_nat (nat now)) = Suc 9" by (rule length_str_nat)
  then show ?thesis using a(1) by (simp add: str_int_def)
qed

lemma str_nat_longer: "10 ^ k \<le> n \<Longrightarrow> k < length (str_nat n)"
proof (induction k arbitrary: n)
  case 0
  show ?case by (cases "n < 10") (simp_all add: str_nat.simps[of n])
next
  case (Suc k)
  have ge: "10 \<le> n"
  proof -
    have "(10::nat) \<le> 10 * 10 ^ k" by simp
    also have "\<dots> \<le> n" using Suc.prems by simp
    finally show ?thesis .
  qed
  have lo: "10 ^ k \<le> n div 10" using Suc.prems by (simp add: less_eq_div_iff_mult_less_eq)
  show ?case using ge Suc.IH[OF lo] by (simp add: str_nat.simps[of n])
qed

lemma str_int_digits: "0 \<le> now \<Longrightarrow> list_all is_digit (str_int now)"
  by (simp add: str_int_def str_nat_digits)

lemma length_str_int_ge_6: "10 ^ 5 \<le> now \<Longrightarrow> 6 \<le> length (str_int now)"
proof -
  assume a: "(10::int) ^ 5 \<le> now"
  then have "(10::nat) ^ 5 \<le> nat now" by (simp add: le_nat_iff)
  then have "5 < length (str_nat (nat now))" by (rule str_nat_longer)
  then show ?thesis using a by (simp add: str_int_def)
qed

text \<open>
  Claim C7, as amended. For every clock reading and every outcome of the random source,
  the user name that \<open>generate_temp_credentials\<close> of the manager builds is the prefix,
  the decimal clock reading, a hyphen and four characters out of the lowercase letters and
  digits, and its password has 12 characters, each out of the letters, the digits and
  \<open>!@#$%^&*\<close>. When the clock reading has ten digits (\<open>10^9 \<le> now < 10^10\<close>) the
  timestamp has exactly ten digits and the name has the form of the claim. The generator
  of \<^verbatim>\<open>mikrotik_api.py\<close> builds the prefix followed by the last six characters of the
  decimal clock reading (all of it when it is shorter), which are six digits from
  \<open>10^5\<close> on, and nothing more; its password has 12 characters, each a letter or a digit.
\<close>

theorem generated_credentials_form:
  "(\<exists>suffix. fst (generate_temp_credentials now rnd prefix) = prefix @ str_int now @ ''-'' @ suffix
        \<and> length suffix = 4 \<and> list_all is_lower_alnum suffix)
   \<and> length (snd (generate_temp_credentials now rnd prefix)) = 12
   \<and> list_all (\<lambda>c. c \<in> set password_alphabet) (snd (generate_temp_credentials now rnd prefix))
   \<and> (10 ^ 9 \<le> now \<and> now < 10 ^ 10
        \<longrightarrow> length (str_int now) = 10 \<and> list_all is_digit (str_int now)
          \<and> temp_username_form prefix (fst (generate_temp_credentials now rnd prefix)))
   \<and> (\<exists>front ts. str_int now = front @ ts
        \<and> fst (api_generate_temp_credentials now rnd prefix) = prefix @ ts
        \<and> length ts = min 6 (length (str_int now))
        \<and> (0 \<le> now \<longrightarrow> list_all is_digit ts)
        \<and> (10 ^ 5 \<le> now \<longrightarrow> length ts = 6))
   \<and> length (snd (api_generate_temp_credentials now rnd prefix)) = 12
   \<and> list_all (\<lambda>c. c \<in> set ascii_letters \<or> c \<in> set digits)
        (snd (api_generate_temp_credentials now rnd prefix))"
proof -
  let ?suffix = "map (\<lambda>i. choice (ascii_lowercase @ digits) (rnd i)) [0..<4]"
  let ?ts = "drop (length (str_int now) - 6) (str_int now)"
  have u: "fst (generate_temp_credentials now rnd prefix) = prefix @ str_int now @ ''-'' @ ?suffix"
    and p: "snd (generate_temp_credentials now rnd prefix) =
              map (\<lambda>i. choice (ascii_letters @ digits @ ''!@#$%^&*'') (rnd (4 + i))) [0..<12]"
    by (simp_all add: generate_temp_credentials_def Let_def)
  have au: "fst (api_generate_temp_credentials now rnd prefix) = prefix @ ?ts"
    and ap: "snd (api_generate_temp_credentials now rnd prefix) =
              map (\<lambda>i. choice (ascii_letters @ digits) (rnd i)) [0..<12]"
    by (simp_all add: api_generate_temp_credentials_def Let_def)
  have s: "list_all is_lower_alnum ?suffix"
    unfolding list_all_iff is_lower_alnum_def
    using choice_mem[of "ascii_lowercase @ digits"]
    by (auto simp: ascii_lowercase_def digits_def)
  have c1: "\<exists>suffix. fst (generate_temp_credentials now rnd prefix)
                = prefix @ str_int now @ ''-'' @ suffix
              \<and> length suffix = 4 \<and> list_all is_lower_alnum suffix"
    using u s by (intro exI[of _ ?suffix]) simp
  have c2: "length (snd (generate_temp_credentials now rnd prefix)) = 12"
    by (simp add: p)
  have c3: "list_all (\<lambda>c. c \<in> set password_alphabet)
              (snd (generate_temp_credentials now rnd prefix))"
    unfolding list_all_iff p
    using choice_mem[of "ascii_letters @ digits @ ''!@#$%^&*''"]
    by (auto simp: ascii_letters_def ascii_lowercase_def ascii_uppercase_def digits_def
        password_alphabet_def)
  have c4: "length (str_int now) = 10 \<and> list_all is_digit (str_int now)
          \<and> temp_username_form prefix (fst (generate_temp_credentials now rnd prefix))"
    if w: "10 ^ 9 \<le> now \<and> now < 10 ^ 10"
  proof -
    have l: "length (str_int now) = 10" using w by (simp add: length_str_int_10)
    have d: "list_all is_digit (str_int now)" using w by (simp add: str_int_digits)
    have r: "drop (length prefix) (fst (generate_temp_credentials now rnd prefix))
               = str_int now @ ''-'' @ ?suffix"
      by (simp add: u)
    have "temp_username_form prefix (fst (generate_temp_credentials now rnd prefix))"
      unfolding temp_username_form_def r Let_def
      using l d s by (simp add: u startswith_append nth_append)
    with l d show ?thesis by blast
  qed
  have c5: "\<exists>front ts. str_int now = front @ ts
        \<and> fst (api_generate_temp_credentials now rnd prefix) = prefix @ ts
        \<and> length ts = min 6 (length (str_int now))
        \<and> (0 \<le> now \<longrightarrow> list_all is_digit ts)
        \<and> (10 ^ 5 \<le> now \<longrightarrow> length ts = 6)"
  proof -
    let ?front = "take (length (str_int now) - 6) (str_int now)"
    have 1: "str_int now = ?front @ ?ts" by simp
    have 2: "length ?ts = min 6 (length (str_int now))" by simp
    have 3: "0 \<le> now \<longrightarrow> list_all is_digit ?ts"
      using str_int_digits[of now] by (auto simp: list_all_iff dest: in_set_dropD)
    have 4: "10 ^ 5 \<le> now \<longrightarrow> length ?ts = 6"
      using length_str_int_ge_6[of now] by simp
    from 1 au 2 3 4 show ?thesis by blast
  qed
  have c6: "length (snd (api_generate_temp_credentials now rnd prefix)) = 12"
    by (simp add: ap)
  have c7: "list_all (\<lambda>c. c \<in> set ascii_letters \<or> c \<in> set digits)
              (snd (api_generate_temp_credentials now rnd prefix))"
    unfolding list_all_iff ap
    using choice_mem[of "ascii_letters @ digits"]
    by (auto simp: ascii_letters_def ascii_lowercase_def digits_def)
  from c1 c2 c3 c4 c5 c6 c7 show ?thesis by blast
qed

theorem generated_credentials_form_witness:
  "temp_username_form ''temp-''
     (fst (generate_temp_credentials 1700000000 (\<lambda>i. 7 * i + 3) ''temp-''))
   \<and> length (str_int 1700000000) = 10
   \<and> length (snd (generate_temp_credentials 1700000000 (\<lambda>i. 7 * i + 3) ''temp-'')) = 12
   \<and> list_all (\<lambda>c. c \<in> set password_alphabet)
        (snd (generate_temp_credentials 1700000000 (\<lambda>i. 7 * i + 3) ''temp-''))"
  using generated_credentials_form[of 1700000000 "\<lambda>i. 7 * i + 3" "''temp-''"]
  by simp

lemma str_int_1700000000: "str_int 1700000000 = ''1700000000''"
  by (simp add: str_int_def str_nat.simps digit_char_def)

text \<open>
  The claim as stated, for every generated user name, fails on the generator of
  \<^verbatim>\<open>mikrotik_api.py\<close>: it keeps the last six digits of the clock reading and appends
  no suffix.
\<close>

theorem timestamp_width_counterexample:
  "fst (api_generate_temp_credentials 1700000000 (\<lambda>i. 7 * i + 3) ''temp_'') = ''temp_000000''
   \<and> \<not> temp_username_form ''temp_''
        (fst (api_generate_temp_credentials 1700000000 (\<lambda>i. 7 * i + 3) ''temp_''))"
  by (simp add: api_generate_temp_credentials_def str_int_1700000000 temp_username_form_def
      Let_def)


section \<open>Device information\<close>

lemma final_sanity_ge: "temp_users \<le> final_sanity total_users temp_users"
  by (simp add: final_sanity_def)

lemma db_fallback_value:
  "db_fallback total_users temp_users db =
     (case db of
        None \<Rightarrow> temp_users
      | Some db_count \<Rightarrow> if temp_users = 0 \<and> db_count \<noteq> 0 then db_count else temp_users)"
  by (auto simp: db_fallback_def split: option.splits)

lemma final_sanity_value:
  "final_sanity total_users temp_users =
     (if total_users = 0 \<and> 0 < temp_users \<or> total_users < temp_users then temp_users + 1
      else total_users)"
  by (simp add: final_sanity_def)

text \<open>
  Claim C10. Whenever \<open>get_device_info\<close> returns a success record, its
  \<open>total_users\<close> is at least its \<open>temporary_users\<close>. The record is built from the
  reply \<open>users\<close> of \<open>/user/print\<close>: with \<open>raw_total\<close> the number of its users that
  are not disabled and \<open>raw_temp\<close> the number of those whose comment contains the marker,
  the reported \<open>temporary_users\<close> is \<open>raw_temp\<close>, or the database count when
  \<open>raw_temp\<close> is zero and the database gives a count other than zero; the reported
  \<open>total_users\<close> is \<open>raw_total\<close>, replaced by \<open>temporary_users + 1\<close> when
  \<open>raw_total\<close> is zero while temporary users are present or when \<open>raw_total\<close> is
  below the temporary count.
\<close>

theorem total_users_at_least_temporary:
  "(get_device_info self reachable net_test net_api str_lower temp_marker db
      = Info_Success device_name total_users temporary_users
    \<longrightarrow> temporary_users \<le> total_users)
   \<and> (reachable
      \<and> connect net_api (service_user self) (service_pass self) = (True, api)
      \<and> identity_print api = (ident, api1)
      \<and> send_command api1 ''/user/print'' [] = (Inr users, api2)
      \<and> raw_total =
          int (length (filter (\<lambda>u. \<not> (u ''disabled'' = Some ''true''
                                        \<or> u ''disabled'' = Some ''yes'')) users))
      \<and> raw_temp =
          int (length (filter
                 (\<lambda>u. contains (str_lower (case u ''comment'' of None \<Rightarrow> [] | Some c \<Rightarrow> c))
                                (str_lower temp_marker)) users))
      \<and> temp =
          (case db of
             None \<Rightarrow> raw_temp
           | Some db_count \<Rightarrow> if raw_temp = 0 \<and> db_count \<noteq> 0 then db_count else raw_temp)
    \<longrightarrow> get_device_info self reachable net_test net_api str_lower temp_marker db
        = Info_Success
            (case ident of Inl e \<Rightarrow> None | Inr name \<Rightarrow> if py_truthy name then name else None)
            (if raw_total = 0 \<and> 0 < temp \<or> raw_total < temp then temp + 1 else raw_total)
            temp)"
proof (intro conjI impI)
  assume "get_device_info self reachable net_test net_api str_lower temp_marker db
            = Info_Success device_name total_users temporary_users"
  then obtain raw :: int where "total_users = final_sanity raw temporary_users"
    by (auto simp: get_device_info_def Let_def
        split: test_result.splits prod.splits bool.splits sum.splits)
  then show "temporary_users \<le> total_users" by (simp add: final_sanity_ge)
next
  assume a: "reachable
      \<and> connect net_api (service_user self) (service_pass self) = (True, api)
      \<and> identity_print api = (ident, api1)
      \<and> send_command api1 ''/user/print'' [] = (Inr users, api2)
      \<and> raw_total =
          int (length (filter (\<lambda>u. \<not> (u ''disabled'' = Some ''true''
                                        \<or> u ''disabled'' = Some ''yes'')) users))
      \<and> raw_temp =
          int (length (filter
                 (\<lambda>u. contains (str_lower (case u ''comment'' of None \<Rightarrow> [] | Some c \<Rightarrow> c))
                                (str_lower temp_marker)) users))
      \<and> temp =
          (case db of
             None \<Rightarrow> raw_temp
           | Some db_count \<Rightarrow> if raw_temp = 0 \<and> db_count \<noteq> 0 then db_count else raw_temp)"
  then obtain test_identity msg
    where t: "test_connection self reachable net_test = Test_Success test_identity msg"
    using test_connection_reachable[of reachable self net_test] by blast
  have c: "connect net_api (service_user self) (service_pass self) = (True, api)"
    and i: "identity_print api = (ident, api1)"
    and u: "send_command api1 ''/user/print'' [] = (Inr users, api2)"
    using a by simp_all
  have rt: "raw_total =
          int (length (filter (\<lambda>u. \<not> (u ''disabled'' = Some ''true''
                                        \<or> u ''disabled'' = Some ''yes'')) users))"
    and rp: "raw_temp =
          int (length (filter
                 (\<lambda>u. contains (str_lower (case u ''comment'' of None \<Rightarrow> [] | Some c \<Rightarrow> c))
                                (str_lower temp_marker)) users))"
    and tmp: "temp =
          (case db of
             None \<Rightarrow> raw_temp
           | Some db_count \<Rightarrow> if raw_temp = 0 \<and> db_count \<noteq> 0 then db_count else raw_temp)"
    using a by blast+
  let ?R = "int (length (filter (\<lambda>u. \<not> (u ''disabled'' = Some ''true''
                                        \<or> u ''disabled'' = Some ''yes'')) users))"
  let ?P = "int (length (filter
                 (\<lambda>u. contains (str_lower (case u ''comment'' of None \<Rightarrow> [] | Some c \<Rightarrow> c))
                                (str_lower temp_marker)) users))"
  have v: "db_fallback ?R ?P db = temp"
    unfolding db_fallback_value tmp rp ..
  have "get_device_info self reachable net_test net_api str_lower temp_marker db
        = Info_Success
            (case ident of Inl e \<Rightarrow> None | Inr name \<Rightarrow> if py_truthy name then name else None)
            (final_sanity ?R (db_fallback ?R ?P db)) (db_fallback ?R ?P db)"
    unfolding get_device_info_def t c
    by (cases ident) (simp_all add: i u Let_def)
  then have "get_device_info self reachable net_test net_api str_lower temp_marker db
        = Info_Success
            (case ident of Inl e \<Rightarrow> None | Inr name \<Rightarrow> if py_truthy name then name else None)
            (final_sanity raw_total temp) temp"
    unfolding v rt .
  then show "get_device_info self reachable net_test net_api str_lower temp_marker db
        = Info_Success
            (case ident of Inl e \<Rightarrow> None | Inr name \<Rightarrow> if py_truthy name then name else None)
            (if raw_total = 0 \<and> 0 < temp \<or> raw_total < temp then temp + 1 else raw_total)
            temp"
    by (simp add: final_sanity_value)
qed

theorem total_users_at_least_temporary_witness:
  "get_device_info \<lparr>service_user = ''svc'', service_pass = ''pw'', api_port = 8728\<rparr> True None
     (Some [''!done'', ''!done'', ''!done'',
            ''!re'', ''=name=admin'', [],
            ''!re'', ''=name=t1'', ''=comment=Temporary user - expires in 5 minutes'',
                     ''=disabled=true'', [],
            ''!re'', ''=name=t2'', ''=comment=temporary USER - expires in 9 minutes'',
                     ''=disabled=yes'', [],
            ''!done''])
     ascii_lower ''Temporary user'' (Some 7)
   = Info_Success None 3 2 \<and> (2::int) \<le> 3"
proof -
  let ?self = "\<lparr>service_user = ''svc'', service_pass = ''pw'', api_port = 8728\<rparr>"
  let ?users = "[''!re'', ''=name=admin'', [],
            ''!re'', ''=name=t1'', ''=comment=Temporary user - expires in 5 minutes'',
                     ''=disabled=true'', [],
            ''!re'', ''=name=t2'', ''=comment=temporary USER - expires in 9 minutes'',
                     ''=disabled=yes'', [],
            ''!done'']"
  let ?net = "Some (''!done'' # ''!done'' # ''!done'' # ?users)"
  let ?api = "\<lparr>connected = True, sent = [''/login'', ''=name=svc'', ''=password=pw'', []],
                incoming = ''!done'' # ''!done'' # ?users\<rparr>"
  let ?api1 = "\<lparr>connected = True,
                 sent = [''/login'', ''=name=svc'', ''=password=pw'', [],
                         ''/system/identity/print'', ''=.proplist=name'', [],
                         ''/system/identity/print'', []],
                 incoming = ?users\<rparr>"
  let ?replies = "[[''name'' \<mapsto> ''admin''],
                   [''name'' \<mapsto> ''t1'',
                    ''comment'' \<mapsto> ''Temporary user - expires in 5 minutes'',
                    ''disabled'' \<mapsto> ''true''],
                   [''name'' \<mapsto> ''t2'',
                    ''comment'' \<mapsto> ''temporary USER - expires in 9 minutes'',
                    ''disabled'' \<mapsto> ''yes'']]"
  have c: "connect ?net (service_user ?self) (service_pass ?self) = (True, ?api)"
    by (simp add: connect_def login_def send_word_def)
  have i: "identity_print ?api = (Inr None, ?api1)"
    by (simp add: identity_print_def send_command_connected read_response_done command_words_def)
  have "\<exists>api2. send_command ?api1 ''/user/print'' [] = (Inr ?replies, api2)"
    by (simp add: send_command_connected read_response_re read_response_done partition_eq_def)
  then obtain api2 where u: "send_command ?api1 ''/user/print'' [] = (Inr ?replies, api2)"
    by blast
  have n: "int (length (filter (\<lambda>u. \<not> (u ''disabled'' = Some ''true''
                                        \<or> u ''disabled'' = Some ''yes'')) ?replies)) = 1"
    by simp
  have m: "int (length (filter
                 (\<lambda>u. contains (ascii_lower (case u ''comment'' of None \<Rightarrow> [] | Some c \<Rightarrow> c))
                                (ascii_lower ''Temporary user'')) ?replies)) = 2"
    by (simp add: ascii_lower_def ascii_uppercase_def ascii_lowercase_def)
  have g: "get_device_info ?self True None ?net ascii_lower ''Temporary user'' (Some 7)
           = Info_Success None 3 2"
    using total_users_at_least_temporary[where reachable = True and self = ?self
        and net_api = ?net and api = ?api and ident = "Inr None" and ?api1.0 = ?api1
        and users = ?replies and ?api2.0 = api2 and raw_total = 1 and raw_temp = 2
        and temp = 2 and db = "Some 7" and str_lower = ascii_lower
        and temp_marker = "''Temporary user''" and net_test = None]
      c i u n m
    by simp
  then show ?thesis by simp
qed

end
